theory Spec2Isabelle
  imports Complex_Main
begin

section \<open>The Data Verification Engine of fuelsync\<close>

text \<open>
  A shallow embedding of the edge function \<^verbatim>\<open>dve-process\<close>: the three pure helpers
  (\<^verbatim>\<open>calculateDistance\<close>, \<^verbatim>\<open>calculateTimeDecay\<close>, \<^verbatim>\<open>calculateLocationFactor\<close>) and the
  request handler passed to \<^verbatim>\<open>serve\<close>.

  The runtime computes with IEEE doubles; the model computes with reals, and a number
  that may be \<^verbatim>\<open>NaN\<close> is a \<open>real option\<close>, with \<open>None\<close> for \<^verbatim>\<open>NaN\<close>. Rounding is left out,
  with one exception, the haversine term of \<^verbatim>\<open>calculateDistance\<close> (see there), because
  its rounding decides whether the distance is a number at all. Timestamps are
  integers, in milliseconds since the epoch. Database calls are assumed to succeed.
\<close>

type_synonym number = "real option"

subsection \<open>Configuration\<close>

record dve_config =
  INITIAL_TRUST_SCORE :: real
  TRUST_INCREMENT :: real
  TRUST_DECREMENT :: real
  MIN_TRUST_SCORE :: real
  MAX_TRUST_SCORE :: real
  TIME_DECAY_HALF_LIFE :: real
  MAX_REPORT_AGE_HOURS :: real
  MAX_DISTANCE_KM :: real
  OPTIMAL_DISTANCE_KM :: real
  MIN_REPORTS_FOR_CONSENSUS :: real
  CONSENSUS_THRESHOLD :: real
  CONSENSUS_BONUS :: real
  VERIFICATION_THRESHOLD :: real

definition DVE_CONFIG :: dve_config where
  "DVE_CONFIG = \<lparr>
     INITIAL_TRUST_SCORE = 0.5,
     TRUST_INCREMENT = 0.05,
     TRUST_DECREMENT = 0.1,
     MIN_TRUST_SCORE = 0.1,
     MAX_TRUST_SCORE = 1.0,
     TIME_DECAY_HALF_LIFE = 24,
     MAX_REPORT_AGE_HOURS = 168,
     MAX_DISTANCE_KM = 2.0,
     OPTIMAL_DISTANCE_KM = 0.5,
     MIN_REPORTS_FOR_CONSENSUS = 2,
     CONSENSUS_THRESHOLD = 0.6,
     CONSENSUS_BONUS = 0.2,
     VERIFICATION_THRESHOLD = 0.4 \<rparr>"

subsection \<open>Geospatial utility\<close>

text \<open>\<^verbatim>\<open>Math.atan2(y, x)\<close> on finite arguments, all four quadrants and both axes.\<close>

definition atan2 :: "real \<Rightarrow> real \<Rightarrow> real" where
  "atan2 y x =
     (if 0 < x then arctan (y / x)
      else if x < 0 then (if 0 \<le> y then arctan (y / x) + pi else arctan (y / x) - pi)
      else if 0 < y then pi / 2
      else if y < 0 then - (pi / 2)
      else 0)"

text \<open>\<^verbatim>\<open>Math.sqrt\<close>: \<^verbatim>\<open>NaN\<close> for a negative number.\<close>

definition js_sqrt :: "real \<Rightarrow> number" where
  "js_sqrt x = (if x < 0 then None else Some (sqrt x))"

text \<open>The haversine term \<^verbatim>\<open>a\<close> of \<^verbatim>\<open>calculateDistance\<close>, in exact arithmetic.\<close>

definition haversine_a :: "real \<Rightarrow> real \<Rightarrow> real \<Rightarrow> real \<Rightarrow> real" where
  "haversine_a lat1 lon1 lat2 lon2 =
     (let dLat = (lat2 - lat1) * (pi / 180);
          dLon = (lon2 - lon1) * (pi / 180)
      in sin (dLat / 2) * sin (dLat / 2) +
         cos (lat1 * (pi / 180)) * cos (lat2 * (pi / 180)) *
         sin (dLon / 2) * sin (dLon / 2))"

text \<open>
  In exact arithmetic the term \<^verbatim>\<open>a\<close> lies between \<open>0\<close> and \<open>1\<close>. In double precision it
  is rounded, and between a point and its antipode, where it is \<open>1\<close>, the rounded value
  can be \<open>1 + 2\<^sup>-\<^sup>5\<^sup>2\<close>; then \<^verbatim>\<open>Math.sqrt(1 - a)\<close> is \<^verbatim>\<open>NaN\<close> and so is the distance. The
  first argument \<open>err\<close> is the rounding error of \<^verbatim>\<open>a\<close> in the call at hand: the value the
  runtime computes minus the exact one. A coordinate that is \<^verbatim>\<open>NaN\<close> makes the distance
  \<^verbatim>\<open>NaN\<close>.
\<close>

definition calculateDistance :: "real \<Rightarrow> number \<Rightarrow> number \<Rightarrow> number \<Rightarrow> number \<Rightarrow> number" where
  "calculateDistance err lat1 lon1 lat2 lon2 =
     (case (lat1, lon1, lat2, lon2) of
        (Some la1, Some lo1, Some la2, Some lo2) \<Rightarrow>
          (let R = 6371;
               a = haversine_a la1 lo1 la2 lo2 + err
           in case (js_sqrt a, js_sqrt (1 - a)) of
                (Some y, Some x) \<Rightarrow> Some (R * 2 * atan2 y x)
              | _ \<Rightarrow> None)
      | _ \<Rightarrow> None)"

subsection \<open>Temporal decay\<close>

text \<open>
  \<^verbatim>\<open>calculateTimeDecay\<close> reads the clock (\<^verbatim>\<open>Date.now()\<close>); the reading is the first
  argument here.
\<close>

definition ageHours :: "int \<Rightarrow> int \<Rightarrow> real" where
  "ageHours now reportTimestamp =
     (real_of_int now - real_of_int reportTimestamp) / (1000 * 60 * 60)"

definition calculateTimeDecay :: "int \<Rightarrow> int \<Rightarrow> real" where
  "calculateTimeDecay now reportTimestamp =
     (if ageHours now reportTimestamp > MAX_REPORT_AGE_HOURS DVE_CONFIG then 0
      else 0.5 powr (ageHours now reportTimestamp / TIME_DECAY_HALF_LIFE DVE_CONFIG))"

subsection \<open>Location trust\<close>

record location_result =
  factor :: number
  distance :: number
  isValid :: bool

text \<open>
  Both comparisons are false for a distance that is \<^verbatim>\<open>NaN\<close>, so the last branch is
  taken: the factor is \<^verbatim>\<open>NaN\<close> (also after \<^verbatim>\<open>Math.max(0, NaN)\<close>) and the flag is true.
\<close>

definition calculateLocationFactor ::
  "real \<Rightarrow> number \<Rightarrow> number \<Rightarrow> number \<Rightarrow> number \<Rightarrow> location_result" where
  "calculateLocationFactor err userLat userLon stationLat stationLon =
     (case calculateDistance err userLat userLon stationLat stationLon of
        None \<Rightarrow> \<lparr> factor = None, distance = None, isValid = True \<rparr>
      | Some d \<Rightarrow>
          if d > MAX_DISTANCE_KM DVE_CONFIG
          then \<lparr> factor = Some 0, distance = Some d, isValid = False \<rparr>
          else if d \<le> OPTIMAL_DISTANCE_KM DVE_CONFIG
          then \<lparr> factor = Some 1.0, distance = Some d, isValid = True \<rparr>
          else \<lparr> factor = Some (max 0 (1 - (d - OPTIMAL_DISTANCE_KM DVE_CONFIG) /
                          (MAX_DISTANCE_KM DVE_CONFIG - OPTIMAL_DISTANCE_KM DVE_CONFIG))),
                 distance = Some d, isValid = True \<rparr>)"

subsection \<open>Formatting\<close>

text \<open>
  \<^verbatim>\<open>Number.prototype.toFixed(2)\<close>: the integer \<open>n\<close> for which \<open>n / 100\<close> is closest to the
  number (the larger one on a tie), printed with two decimals; a negative number is
  formatted as its absolute value behind a minus sign. (Numbers from \<open>10\<^sup>2\<^sup>1\<close> on, which the
  method prints in exponent notation, are not distances on Earth.)
\<close>

definition digit :: "nat \<Rightarrow> char" where
  "digit d = ''0123456789'' ! (d mod 10)"

fun nat_to_string :: "nat \<Rightarrow> string" where
  "nat_to_string n =
     (if n < 10 then [digit n] else nat_to_string (n div 10) @ [digit (n mod 10)])"

declare nat_to_string.simps [simp del]

definition toFixed2 :: "real \<Rightarrow> string" where
  "toFixed2 x =
     (let n = nat \<lfloor>\<bar>x\<bar> * 100 + 1 / 2\<rfloor>;
          digits = nat_to_string (n div 100) @ ''.'' @ [digit (n div 10), digit n]
      in if x < 0 then ''-'' @ digits else digits)"

text \<open>\<^verbatim>\<open>toFixed\<close> of \<^verbatim>\<open>NaN\<close> is the string \<^verbatim>\<open>NaN\<close>.\<close>

definition number_toFixed2 :: "number \<Rightarrow> string" where
  "number_toFixed2 v = (case v of None \<Rightarrow> ''NaN'' | Some x \<Rightarrow> toFixed2 x)"

subsection \<open>The store\<close>

text \<open>
  The four tables the handler reads and writes. Their schema is not part of the
  source; the columns are those of the interfaces \<^verbatim>\<open>FuelStation\<close>, \<^verbatim>\<open>Report\<close>,
  \<^verbatim>\<open>TrustScore\<close> and \<^verbatim>\<open>VerifiedData\<close> of the client code, restricted to the columns the
  handler touches. A numeric column that the handler can write \<^verbatim>\<open>null\<close> or \<^verbatim>\<open>NaN\<close> to
  (\<^verbatim>\<open>NaN\<close> is sent as \<^verbatim>\<open>null\<close> in the JSON of the insert) is a \<open>real option\<close>, with \<open>None\<close>
  for \<^verbatim>\<open>null\<close>.
\<close>

record station =
  lat :: "real option"
  lon :: "real option"

record report =
  station_id :: string
  anonymous_user_id :: string
  fuel_type :: string
  user_lat :: "real option"
  user_lon :: "real option"
  timestamp :: int
  trust_score_at_submission :: "real option"
  time_decay_factor :: "real option"
  location_factor :: "real option"
  dve_score :: "real option"
  is_verified :: bool
  is_rejected :: bool
  rejection_reason :: "string option"

record verified_entry =
  is_available :: bool
  confidence_score :: real
  verified_by_count :: nat
  last_verified_at :: int

text \<open>
  Modelled from the spec: the database schema is missing from the source. Stations are
  keyed by their identifier, trust scores by the submitter identifier (one row per
  user), Verified Fuel Entries by the pair (station, fuel type), which is the conflict
  target of the upsert. A report's identifier is assigned by the database; it is
  modelled as the row's position in the table, which is unique and never reused because
  the handler never deletes a report. A new report gets its \<^verbatim>\<open>timestamp\<close> from the
  database and starts with \<^verbatim>\<open>is_verified = false\<close>.
\<close>

record state =
  fuel_stations :: "string \<rightharpoonup> station"
  user_trust_scores :: "string \<rightharpoonup> real"
  crowdsourced_reports :: "report list"
  verified_fuel_data :: "string \<times> string \<rightharpoonup> verified_entry"

text \<open>
  What the handler takes from its environment during one request. The clock readings:
  \<^verbatim>\<open>new Date()\<close> passed to \<^verbatim>\<open>calculateTimeDecay\<close>, \<^verbatim>\<open>Date.now()\<close> read in that function, the
  timestamp the database gives the inserted row, \<^verbatim>\<open>new Date()\<close> for the cutoff, and
  \<^verbatim>\<open>new Date()\<close> at the upsert of each fuel type. And the rounding error of the haversine
  term in the request's call of \<^verbatim>\<open>calculateDistance\<close>.
\<close>

record env =
  t_submit :: int
  t_now :: int
  t_insert :: int
  t_cutoff :: int
  t_verify :: "string \<Rightarrow> int"
  a_error :: real

subsection \<open>Requests and responses\<close>

text \<open>
  The \<^verbatim>\<open>report\<close> object of a request, typed as the clients send it: three strings and two
  numbers. A string may be absent (\<^verbatim>\<open>undefined\<close> or \<^verbatim>\<open>null\<close>, which the handler does not tell
  apart). A number may be absent (\<^verbatim>\<open>undefined\<close>) or \<^verbatim>\<open>null\<close>, which the handler does tell
  apart.
\<close>

datatype json_number = JAbsent | JNull | JNum real

record submission =
  req_station_id :: "string option"
  req_fuel_type :: "string option"
  req_anonymous_user_id :: "string option"
  req_user_lat :: json_number
  req_user_lon :: json_number

text \<open>
  A JSON number in arithmetic (\<^verbatim>\<open>null\<close> is \<open>0\<close>, \<^verbatim>\<open>undefined\<close> is \<^verbatim>\<open>NaN\<close>) and in the JSON of an
  insert (\<^verbatim>\<open>null\<close> stays \<^verbatim>\<open>null\<close>, and an absent key leaves the column \<^verbatim>\<open>null\<close>).
\<close>

definition to_number :: "json_number \<Rightarrow> number" where
  "to_number v = (case v of JAbsent \<Rightarrow> None | JNull \<Rightarrow> Some 0 | JNum x \<Rightarrow> Some x)"

definition to_column :: "json_number \<Rightarrow> real option" where
  "to_column v = (case v of JNum x \<Rightarrow> Some x | _ \<Rightarrow> None)"

text \<open>
  A request is a preflight (\<^verbatim>\<open>OPTIONS\<close>), a request whose body is not JSON, or a request
  with a parsed body: the \<^verbatim>\<open>action\<close> and the \<^verbatim>\<open>report\<close>, if the body has one (\<open>None\<close> when
  it is \<^verbatim>\<open>undefined\<close> or \<^verbatim>\<open>null\<close>; reading a field of it then throws a \<^verbatim>\<open>TypeError\<close>).
\<close>

datatype request = OPTIONS | BadJson | Body string "submission option"

datatype js_error = TypeError | SyntaxError

record dve_result =
  score :: number
  trustScore :: real
  timeDecay :: real
  locationFactor :: number
  isRejected :: bool
  rejectionReason :: "string option"

datatype body =
    Empty
  | Error string
  | Exception js_error
  | Submitted nat dve_result
  | AdminData "(nat \<times> report) list" "string \<rightharpoonup> real"
      "string \<times> string \<rightharpoonup> verified_entry" dve_config

record response =
  status :: nat
  body :: body

subsection \<open>Consensus\<close>

text \<open>
  The query of lines 118-123: the station's non-rejected reports from the cutoff on,
  each with its identifier, in table order.
\<close>

definition cutoffDate :: "env \<Rightarrow> int" where
  "cutoffDate env = t_cutoff env - \<lfloor>MAX_REPORT_AGE_HOURS DVE_CONFIG\<rfloor> * (60 * 60 * 1000)"

definition window :: "env \<Rightarrow> string \<Rightarrow> report list \<Rightarrow> (nat \<times> report) list" where
  "window env sid rows =
     filter (\<lambda>(i, r). station_id r = sid \<and> \<not> is_rejected r \<and> cutoffDate env \<le> timestamp r)
       (zip [0..<length rows] rows)"

text \<open>
  The dictionary \<^verbatim>\<open>fuelTypeReports\<close> is an object literal, so a lookup also finds what every
  object inherits from \<^verbatim>\<open>Object.prototype\<close>. For a fuel type of that name the lookup
  \<^verbatim>\<open>fuelTypeReports[r.fuel_type]\<close> is not empty, no array is created, and the call of
  \<^verbatim>\<open>push\<close> on the inherited value throws a \<^verbatim>\<open>TypeError\<close>. The names are those of the
  properties of \<^verbatim>\<open>Object.prototype\<close> in the handler's runtime (Deno on V8, which removes
  \<^verbatim>\<open>__proto__\<close>).
\<close>

definition inherited :: "string list" where
  "inherited = [''constructor'', ''hasOwnProperty'', ''isPrototypeOf'',
     ''propertyIsEnumerable'', ''toLocaleString'', ''toString'', ''valueOf'',
     ''__defineGetter__'', ''__defineSetter__'', ''__lookupGetter__'', ''__lookupSetter__'']"

type_synonym groups = "(string \<times> (nat \<times> report) list) list"

fun push_group :: "string \<Rightarrow> nat \<times> report \<Rightarrow> groups \<Rightarrow> groups" where
  "push_group k x [] = [(k, [x])]"
| "push_group k x ((k', xs) # g) =
     (if k = k' then (k', xs @ [x]) # g else (k', xs) # push_group k x g)"

fun groupByFuelType :: "(nat \<times> report) list \<Rightarrow> groups \<Rightarrow> js_error + groups" where
  "groupByFuelType [] g = Inr g"
| "groupByFuelType (x # xs) g =
     (if fuel_type (snd x) \<in> set inherited then Inl TypeError
      else groupByFuelType xs (push_group (fuel_type (snd x)) x g))"

definition uniqueUsers :: "(nat \<times> report) list \<Rightarrow> nat" where
  "uniqueUsers fuelReports = length (remdups (map (\<lambda>r. anonymous_user_id (snd r)) fuelReports))"

text \<open>\<^verbatim>\<open>r.dve_score || 0\<close>: a missing score counts as \<open>0\<close>.\<close>

definition or0 :: "real option \<Rightarrow> real" where
  "or0 v = (case v of None \<Rightarrow> 0 | Some x \<Rightarrow> if x = 0 then 0 else x)"

definition avgScore :: "(nat \<times> report) list \<Rightarrow> real" where
  "avgScore fuelReports =
     foldl (\<lambda>sum r. sum + or0 (dve_score (snd r))) 0 fuelReports / real (length fuelReports)"

definition finalScore :: "(nat \<times> report) list \<Rightarrow> real" where
  "finalScore fuelReports = min 1.0 (avgScore fuelReports + CONSENSUS_BONUS DVE_CONFIG)"

text \<open>The update of line 146, for each report of the group: the row of that identifier.\<close>

definition mark_verified :: "(nat \<times> report) list \<Rightarrow> report list \<Rightarrow> report list" where
  "mark_verified fuelReports rows =
     foldl (\<lambda>rows r. rows[fst r := (rows ! fst r)\<lparr>is_verified := True\<rparr>]) rows fuelReports"

definition publish :: "env \<Rightarrow> string \<Rightarrow> string \<Rightarrow> (nat \<times> report) list \<Rightarrow> state \<Rightarrow> state" where
  "publish env sid fuelType fuelReports s =
     s\<lparr> verified_fuel_data := (verified_fuel_data s)((sid, fuelType) \<mapsto>
           \<lparr> is_available = True,
             confidence_score = finalScore fuelReports,
             verified_by_count = uniqueUsers fuelReports,
             last_verified_at = t_verify env fuelType \<rparr>),
        crowdsourced_reports := mark_verified fuelReports (crowdsourced_reports s) \<rparr>"

text \<open>
  The loop of lines 132-150 over the entries of the dictionary. (\<^verbatim>\<open>Object.entries\<close> lists
  keys that look like array indices first; the iterations write to different keys, so
  their order does not matter.)
\<close>

fun consensus_loop :: "env \<Rightarrow> string \<Rightarrow> groups \<Rightarrow> state \<Rightarrow> state" where
  "consensus_loop env sid [] s = s"
| "consensus_loop env sid ((fuelType, fuelReports) # g) s =
     consensus_loop env sid g
       (if real (uniqueUsers fuelReports) \<ge> MIN_REPORTS_FOR_CONSENSUS DVE_CONFIG
        then (if finalScore fuelReports \<ge> VERIFICATION_THRESHOLD DVE_CONFIG
              then publish env sid fuelType fuelReports s
              else s)
        else s)"

definition run_consensus :: "env \<Rightarrow> string \<Rightarrow> state \<Rightarrow> js_error + state" where
  "run_consensus env sid s =
     (let reports = window env sid (crowdsourced_reports s)
      in if real (length reports) \<ge> MIN_REPORTS_FOR_CONSENSUS DVE_CONFIG
         then (case groupByFuelType reports [] of
                 Inl e \<Rightarrow> Inl e
               | Inr g \<Rightarrow> Inr (consensus_loop env sid g s))
         else Inr s)"

subsection \<open>The request handler\<close>

text \<open>JavaScript truthiness of the strings and numbers the handler tests with \<^verbatim>\<open>!\<close>.\<close>

definition falsy_string :: "string option \<Rightarrow> bool" where
  "falsy_string v = (v = None \<or> v = Some [])"

definition falsy_number :: "real option \<Rightarrow> bool" where
  "falsy_number v = (v = None \<or> v = Some 0)"

definition missing_required :: "submission \<Rightarrow> bool" where
  "missing_required r =
     (falsy_string (req_station_id r) \<or> falsy_string (req_fuel_type r) \<or>
      falsy_string (req_anonymous_user_id r) \<or>
      req_user_lat r = JAbsent \<or> req_user_lon r = JAbsent)"

text \<open>\<^verbatim>\<open>!station?.lat || !station?.lon\<close>, for the row found or not found by the lookup.\<close>

definition station_unusable :: "station option \<Rightarrow> bool" where
  "station_unusable st =
     (case st of None \<Rightarrow> True | Some x \<Rightarrow> falsy_number (lat x) \<or> falsy_number (lon x))"

text \<open>Lines 79-90: the submitter's trust score, created at the initial value if absent.\<close>

definition get_or_create_trust :: "string \<Rightarrow> state \<Rightarrow> real \<times> state" where
  "get_or_create_trust uid s =
     (case user_trust_scores s uid of
        None \<Rightarrow> (INITIAL_TRUST_SCORE DVE_CONFIG,
                 s\<lparr>user_trust_scores := (user_trust_scores s)(uid \<mapsto> INITIAL_TRUST_SCORE DVE_CONFIG)\<rparr>)
      | Some t \<Rightarrow> (t, s))"

text \<open>Lines 90-101: the score of the submission and the decision to reject it.\<close>

definition rejection_message :: "number \<Rightarrow> string" where
  "rejection_message d = ''User too far from station ('' @ number_toFixed2 d @ ''km)''"

definition score_submission ::
  "env \<Rightarrow> real \<Rightarrow> number \<Rightarrow> number \<Rightarrow> number \<Rightarrow> number \<Rightarrow> dve_result" where
  "score_submission env trust ulat ulon slat slon =
     (let decay = calculateTimeDecay (t_now env) (t_submit env);
          locationResult = calculateLocationFactor (a_error env) ulat ulon slat slon
      in if \<not> isValid locationResult
         then \<lparr> score = Some 0, trustScore = trust, timeDecay = decay,
                locationFactor = factor locationResult, isRejected = True,
                rejectionReason = Some (rejection_message (distance locationResult)) \<rparr>
         else \<lparr> score = (case factor locationResult of
                          None \<Rightarrow> None
                        | Some f \<Rightarrow> Some (trust * decay * f)),
                trustScore = trust, timeDecay = decay,
                locationFactor = factor locationResult,
                isRejected = False, rejectionReason = None \<rparr>)"

text \<open>Lines 103-115: the row that is inserted.\<close>

definition new_report ::
  "env \<Rightarrow> string \<Rightarrow> string \<Rightarrow> string \<Rightarrow> json_number \<Rightarrow> json_number \<Rightarrow> dve_result \<Rightarrow> report" where
  "new_report env sid ft uid ulat ulon res =
     \<lparr> station_id = sid,
       anonymous_user_id = uid,
       fuel_type = ft,
       user_lat = to_column ulat,
       user_lon = to_column ulon,
       timestamp = t_insert env,
       trust_score_at_submission = Some (trustScore res),
       time_decay_factor = Some (timeDecay res),
       location_factor = locationFactor res,
       dve_score = score res,
       is_verified = False,
       is_rejected = isRejected res,
       rejection_reason = rejectionReason res \<rparr>"

text \<open>The coordinates of a station that passes the check of line 73.\<close>

definition station_coords :: "station option \<Rightarrow> (real \<times> real) option" where
  "station_coords st =
     (if station_unusable st then None
      else (case st of
              None \<Rightarrow> None
            | Some x \<Rightarrow> (case (lat x, lon x) of (Some slat, Some slon) \<Rightarrow> Some (slat, slon) | _ \<Rightarrow> None)))"

text \<open>Lines 70-156: a submission that has passed the check of lines 64-65.\<close>

definition process_submission ::
  "env \<Rightarrow> state \<Rightarrow> string \<Rightarrow> string \<Rightarrow> string \<Rightarrow> json_number \<Rightarrow> json_number \<Rightarrow>
     response \<times> state" where
  "process_submission env s sid ft uid ulat ulon =
     (case station_coords (fuel_stations s sid) of
        None \<Rightarrow> (\<lparr> status = 404, body = Error ''Station not found or missing coordinates'' \<rparr>, s)
      | Some (slat, slon) \<Rightarrow>
          (let (trust, s1) = get_or_create_trust uid s;
               res = score_submission env trust (to_number ulat) (to_number ulon)
                       (Some slat) (Some slon);
               insertedId = length (crowdsourced_reports s1);
               s2 = s1\<lparr>crowdsourced_reports :=
                       crowdsourced_reports s1 @ [new_report env sid ft uid ulat ulon res]\<rparr>
           in case run_consensus env sid s2 of
                Inl e \<Rightarrow> (\<lparr> status = 500, body = Exception e \<rparr>, s2)
              | Inr s3 \<Rightarrow> (\<lparr> status = 200, body = Submitted insertedId res \<rparr>, s3)))"

definition submit_report :: "env \<Rightarrow> state \<Rightarrow> submission \<Rightarrow> response \<times> state" where
  "submit_report env s r =
     (if missing_required r
      then (\<lparr> status = 400, body = Error ''Missing required fields'' \<rparr>, s)
      else (case (req_station_id r, req_fuel_type r, req_anonymous_user_id r) of
              (Some sid, Some ft, Some uid) \<Rightarrow>
                process_submission env s sid ft uid (req_user_lat r) (req_user_lon r)
            | _ \<Rightarrow> (\<lparr> status = 400, body = Error ''Missing required fields'' \<rparr>, s)))"

text \<open>
  Lines 159-166. The reports are the 100 most recent ones; among reports of equal
  timestamp the model keeps table order. (The station name joined to each row is left
  out.)
\<close>

definition recent_reports :: "report list \<Rightarrow> (nat \<times> report) list" where
  "recent_reports rows =
     take 100 (sort_key (\<lambda>r. - timestamp (snd r)) (zip [0..<length rows] rows))"

definition get_admin_data :: "state \<Rightarrow> response" where
  "get_admin_data s =
     \<lparr> status = 200,
       body = AdminData (recent_reports (crowdsourced_reports s)) (user_trust_scores s)
                (verified_fuel_data s) DVE_CONFIG \<rparr>"

text \<open>
  The handler: the response and the store after the request. An exception thrown in
  the \<^verbatim>\<open>try\<close> block is caught and answered with status 500; what was written to the
  store before it stays written.
\<close>

definition serve :: "env \<Rightarrow> state \<Rightarrow> request \<Rightarrow> response \<times> state" where
  "serve env s req =
     (case req of
        OPTIONS \<Rightarrow> (\<lparr> status = 200, body = Empty \<rparr>, s)
      | BadJson \<Rightarrow> (\<lparr> status = 500, body = Exception SyntaxError \<rparr>, s)
      | Body action report \<Rightarrow>
          if action = ''submit_report''
          then (case report of
                  None \<Rightarrow> (\<lparr> status = 500, body = Exception TypeError \<rparr>, s)
                | Some r \<Rightarrow> submit_report env s r)
          else if action = ''get_admin_data'' then (get_admin_data s, s)
          else (\<lparr> status = 400, body = Error ''Invalid action'' \<rparr>, s))"

subsection \<open>Notions used in the statements\<close>

text \<open>The windowed reports of one fuel type, and the distinct submitters among them.\<close>

definition group_of :: "string \<Rightarrow> (nat \<times> report) list \<Rightarrow> (nat \<times> report) list" where
  "group_of ft w = filter (\<lambda>x. fuel_type (snd x) = ft) w"

definition submitters :: "(nat \<times> report) list \<Rightarrow> string set" where
  "submitters fr = (\<lambda>x. anonymous_user_id (snd x)) ` set fr"

text \<open>The arithmetic mean of the scores of a group, a missing score counting as \<open>0\<close>.\<close>

definition mean_score :: "(nat \<times> report) list \<Rightarrow> real" where
  "mean_score fr = sum_list (map (\<lambda>x. or0 (dve_score (snd x))) fr) / real (length fr)"

text \<open>The store after the consensus run, whether the run completes or throws.\<close>

definition after_consensus :: "env \<Rightarrow> string \<Rightarrow> state \<Rightarrow> state" where
  "after_consensus env sid s = (case run_consensus env sid s of Inl e \<Rightarrow> s | Inr s' \<Rightarrow> s')"

text \<open>
  Two versions of the report table that differ at most in that reports were marked
  verified.
\<close>

definition flags_only :: "report list \<Rightarrow> report list \<Rightarrow> bool" where
  "flags_only rows rows' \<longleftrightarrow>
     length rows' = length rows \<and>
     (\<forall>i < length rows. rows' ! i = (rows ! i)\<lparr>is_verified := is_verified (rows' ! i)\<rparr> \<and>
        (is_verified (rows ! i) \<longrightarrow> is_verified (rows' ! i)))"

text \<open>The result of \<^verbatim>\<open>calculateLocationFactor\<close> in the handler's call of line 92.\<close>

definition location_of :: "env \<Rightarrow> json_number \<Rightarrow> json_number \<Rightarrow> real \<Rightarrow> real \<Rightarrow> location_result" where
  "location_of env ulat ulon slat slon =
     calculateLocationFactor (a_error env) (to_number ulat) (to_number ulon) (Some slat) (Some slon)"

text \<open>
  The row a submission is stored as, and the store once the row is inserted, before
  the consensus run.
\<close>

definition submitted_row ::
  "env \<Rightarrow> state \<Rightarrow> string \<Rightarrow> string \<Rightarrow> string \<Rightarrow> json_number \<Rightarrow> json_number \<Rightarrow>
     real \<Rightarrow> real \<Rightarrow> report" where
  "submitted_row env s sid ft uid ulat ulon slat slon =
     new_report env sid ft uid ulat ulon
       (score_submission env (fst (get_or_create_trust uid s)) (to_number ulat) (to_number ulon)
          (Some slat) (Some slon))"

definition with_submission ::
  "env \<Rightarrow> state \<Rightarrow> string \<Rightarrow> string \<Rightarrow> string \<Rightarrow> json_number \<Rightarrow> json_number \<Rightarrow>
     real \<Rightarrow> real \<Rightarrow> state" where
  "with_submission env s sid ft uid ulat ulon slat slon =
     (snd (get_or_create_trust uid s))\<lparr>crowdsourced_reports :=
        crowdsourced_reports s @ [submitted_row env s sid ft uid ulat ulon slat slon]\<rparr>"

text \<open>The \<^verbatim>\<open>reports\<close> array of an answer to \<^verbatim>\<open>get_admin_data\<close>.\<close>

definition admin_reports :: "response \<Rightarrow> (nat \<times> report) list" where
  "admin_reports resp = (case body resp of AdminData rs t v c \<Rightarrow> rs | _ \<Rightarrow> [])"

subsection \<open>Sample data\<close>

text \<open>
  Two requests' readings of the environment, a store with five stations (one on the
  equator, one without a latitude), and a complete submission for station \<open>s1\<close> sent
  from the station's own position.
\<close>

definition env0 :: env where
  "env0 = \<lparr> t_submit = 1000, t_now = 1000, t_insert = 1002, t_cutoff = 1003,
            t_verify = (\<lambda>_. 1004), a_error = 0 \<rparr>"

definition env1 :: env where
  "env1 = \<lparr> t_submit = 5000, t_now = 5001, t_insert = 5002, t_cutoff = 5003,
            t_verify = (\<lambda>_. 5004), a_error = 0 \<rparr>"

definition st0 :: state where
  "st0 = \<lparr> fuel_stations = [''s1'' \<mapsto> \<lparr> lat = Some 1, lon = Some 1 \<rparr>,
                             ''s0'' \<mapsto> \<lparr> lat = Some 0, lon = Some 1 \<rparr>,
                             ''s2'' \<mapsto> \<lparr> lat = None, lon = Some 1 \<rparr>,
                             ''s3'' \<mapsto> \<lparr> lat = Some 2, lon = Some 2 \<rparr>,
                             ''s4'' \<mapsto> \<lparr> lat = Some 14.7, lon = Some 1 \<rparr>],
           user_trust_scores = Map.empty, crowdsourced_reports = [],
           verified_fuel_data = Map.empty \<rparr>"

definition sub0 :: submission where
  "sub0 = \<lparr> req_station_id = Some ''s1'', req_fuel_type = Some ''Diesel'',
            req_anonymous_user_id = Some ''u1'', req_user_lat = JNum 1, req_user_lon = JNum 1 \<rparr>"

text \<open>Scenario C: two users have reported Diesel at station \<open>s1\<close>, with scores 0.5 and 0.6.\<close>

definition rC :: "string \<Rightarrow> real \<Rightarrow> report" where
  "rC uid v =
     \<lparr> station_id = ''s1'', anonymous_user_id = uid, fuel_type = ''Diesel'',
       user_lat = Some 1, user_lon = Some 1, timestamp = 1002,
       trust_score_at_submission = Some 0.5, time_decay_factor = Some 1,
       location_factor = Some 1, dve_score = Some v,
       is_verified = False, is_rejected = False, rejection_reason = None \<rparr>"

definition stC :: state where
  "stC = st0\<lparr>crowdsourced_reports := [rC ''u1'' 0.5, rC ''u2'' 0.6]\<rparr>"

text \<open>Scenario D: one user has reported Diesel at station \<open>s1\<close> and reports it again.\<close>

definition stD :: state where
  "stD = st0\<lparr>user_trust_scores := [''u1'' \<mapsto> 0.5],
             crowdsourced_reports := [rC ''u1'' 0.5]\<rparr>"

text \<open>
  A second user reports Diesel at \<open>s1\<close> from the station; a third user reports it from
  one degree of latitude further south, about 111 km away.
\<close>

definition sub_u2 :: submission where
  "sub_u2 = sub0\<lparr>req_anonymous_user_id := Some ''u2''\<rparr>"

definition sub_far :: submission where
  "sub_far = sub0\<lparr>req_anonymous_user_id := Some ''u3'', req_user_lat := JNum 0\<rparr>"

text \<open>
  The store after the first user and then the second user have reported Diesel at \<open>s1\<close>
  from the station, both at the clock readings \<open>env0\<close>.
\<close>

definition stA1 :: state where
  "stA1 = st0\<lparr>user_trust_scores := [''u1'' \<mapsto> 0.5],
              crowdsourced_reports := [rC ''u1'' 0.5]\<rparr>"

definition stA2 :: state where
  "stA2 = st0\<lparr>user_trust_scores := [''u1'' \<mapsto> 0.5, ''u2'' \<mapsto> 0.5],
              crowdsourced_reports := [(rC ''u1'' 0.5)\<lparr>is_verified := True\<rparr>,
                                       (rC ''u2'' 0.5)\<lparr>is_verified := True\<rparr>],
              verified_fuel_data := [(''s1'', ''Diesel'') \<mapsto>
                 \<lparr> is_available = True, confidence_score = 0.7, verified_by_count = 2,
                   last_verified_at = 1004 \<rparr>]\<rparr>"

text \<open>
  The same two reports when the first user names the fuel type \<open>constructor\<close>: the
  second request stores its report and fails in the grouping.
\<close>

definition sub_ctor :: submission where
  "sub_ctor = sub0\<lparr>req_fuel_type := Some ''constructor''\<rparr>"

definition stX1 :: state where
  "stX1 = st0\<lparr>user_trust_scores := [''u1'' \<mapsto> 0.5],
              crowdsourced_reports := [(rC ''u1'' 0.5)\<lparr>fuel_type := ''constructor''\<rparr>]\<rparr>"

definition stX2 :: state where
  "stX2 = st0\<lparr>user_trust_scores := [''u1'' \<mapsto> 0.5, ''u2'' \<mapsto> 0.5],
              crowdsourced_reports := [(rC ''u1'' 0.5)\<lparr>fuel_type := ''constructor''\<rparr>,
                                       rC ''u2'' 0.5]\<rparr>"

text \<open>
  A third user reports Diesel at \<open>s1\<close> from the station when the store is \<open>stX2\<close>: the
  store afterwards.
\<close>

definition sub_u3 :: submission where
  "sub_u3 = sub0\<lparr>req_anonymous_user_id := Some ''u3''\<rparr>"

definition stX3 :: state where
  "stX3 = st0\<lparr>user_trust_scores := [''u1'' \<mapsto> 0.5, ''u2'' \<mapsto> 0.5, ''u3'' \<mapsto> 0.5],
              crowdsourced_reports := [(rC ''u1'' 0.5)\<lparr>fuel_type := ''constructor''\<rparr>,
                                       rC ''u2'' 0.5, rC ''u3'' 0.5]\<rparr>"

text \<open>The submission \<open>sub0\<close> with the latitude \<^verbatim>\<open>null\<close>.\<close>

definition sub_null :: submission where
  "sub_null = sub0\<lparr>req_user_lat := JNull\<rparr>"

text \<open>
  The row it is stored as when it is the first request of user \<open>u1\<close>, at the clock
  readings \<open>env0\<close>: the latitude column is empty, and the row is rejected for a distance
  of one degree of latitude.
\<close>

definition row_null :: report where
  "row_null =
     \<lparr> station_id = ''s1'', anonymous_user_id = ''u1'', fuel_type = ''Diesel'',
       user_lat = None, user_lon = Some 1, timestamp = 1002,
       trust_score_at_submission = Some 0.5, time_decay_factor = Some 1,
       location_factor = Some 0, dve_score = Some 0,
       is_verified = False, is_rejected = True,
       rejection_reason = Some (rejection_message (Some (6371 * pi / 180))) \<rparr>"

text \<open>
  A report for station \<open>s4\<close>, at latitude 14.7 and longitude 1, sent from its antipode,
  and the environment of the request: in double precision the haversine term of these
  coordinates is \<open>1 + 2\<^sup>-\<^sup>5\<^sup>2\<close>, in exact arithmetic it is \<open>1\<close>.
\<close>

definition sub_antipode :: submission where
  "sub_antipode = \<lparr> req_station_id = Some ''s4'', req_fuel_type = Some ''Diesel'',
       req_anonymous_user_id = Some ''u1'', req_user_lat = JNum (- 14.7),
       req_user_lon = JNum (- 179) \<rparr>"

definition env_fp :: env where
  "env_fp = env0\<lparr>a_error := 1 / 2 ^ 52\<rparr>"

text \<open>
  The row that report is stored as: not rejected, with no number as its location factor
  and none as its score (\<^verbatim>\<open>NaN\<close> is written as \<^verbatim>\<open>null\<close>).
\<close>

definition row_antipode :: report where
  "row_antipode =
     \<lparr> station_id = ''s4'', anonymous_user_id = ''u1'', fuel_type = ''Diesel'',
       user_lat = Some (- 14.7), user_lon = Some (- 179), timestamp = 1002,
       trust_score_at_submission = Some 0.5, time_decay_factor = Some 1,
       location_factor = None, dve_score = None,
       is_verified = False, is_rejected = False, rejection_reason = None \<rparr>"

text \<open>
  A store in which one user has reported Diesel at \<open>s1\<close> 101 times, one millisecond
  apart.
\<close>

definition st101 :: state where
  "st101 = stA1\<lparr>crowdsourced_reports :=
             map (\<lambda>i. (rC ''u1'' 0.5)\<lparr>timestamp := 1002 + int i\<rparr>) [0..<101]\<rparr>"

section \<open>Properties of the pure helpers\<close>

lemma DVE_CONFIG_simps [simp]:
  "INITIAL_TRUST_SCORE DVE_CONFIG = 0.5"
  "MIN_TRUST_SCORE DVE_CONFIG = 0.1"
  "MAX_TRUST_SCORE DVE_CONFIG = 1"
  "TIME_DECAY_HALF_LIFE DVE_CONFIG = 24"
  "MAX_REPORT_AGE_HOURS DVE_CONFIG = 168"
  "MAX_DISTANCE_KM DVE_CONFIG = 2"
  "OPTIMAL_DISTANCE_KM DVE_CONFIG = 0.5"
  "MIN_REPORTS_FOR_CONSENSUS DVE_CONFIG = 2"
  "CONSENSUS_BONUS DVE_CONFIG = 0.2"
  "VERIFICATION_THRESHOLD DVE_CONFIG = 0.4"
  by (simp_all add: DVE_CONFIG_def)

lemma atan2_sin_cos:
  assumes "0 \<le> t" "t \<le> pi / 2"
  shows "atan2 (sin t) (cos t) = t"
proof (cases "t = pi / 2")
  case True
  have "atan2 (sin (pi / 2)) (cos (pi / 2)) = pi / 2" by (simp add: atan2_def)
  then show ?thesis unfolding True .
next
  case False
  with assms have lt: "t < pi / 2" by simp
  have "- (pi / 2) < t" using assms(1) pi_half_gt_zero by linarith
  then have "0 < cos t" using lt by (simp add: cos_gt_zero_pi)
  moreover have "arctan (sin t / cos t) = t"
    using arctan_tan [of t] \<open>- (pi / 2) < t\<close> lt by (simp add: tan_def)
  ultimately show ?thesis by (simp add: atan2_def)
qed

text \<open>Along a meridian the distance is the arc length: radius times the angle.\<close>

lemma calculateDistance_meridian:
  assumes "0 \<le> x" "x \<le> 180"
  shows "calculateDistance 0 (Some la) (Some lo) (Some (la + x)) (Some lo) =
         Some (6371 * (x * (pi / 180)))"
proof -
  define t where "t = x * (pi / 180) / 2"
  have t0: "0 \<le> t" using assms(1) by (simp add: t_def)
  have "x * (pi / 180) \<le> 180 * (pi / 180)"
    using assms(2) by (intro mult_right_mono) simp_all
  then have t1: "t \<le> pi / 2" by (simp add: t_def)
  have a: "haversine_a la lo (la + x) lo = sin t * sin t"
    by (simp add: haversine_a_def t_def)
  have s0: "0 \<le> sin t" using t0 t1 pi_half_less_two
    by (intro sin_ge_zero) linarith+
  have c0: "0 \<le> cos t" using t0 t1 by (intro cos_ge_zero) linarith+
  have cc: "1 - sin t * sin t = cos t * cos t"
    using sin_cos_squared_add [of t] by (simp add: power2_eq_square algebra_simps)
  then have r1: "js_sqrt (1 - sin t * sin t) = Some (cos t)" using c0 by (simp add: js_sqrt_def)
  have r2: "js_sqrt (sin t * sin t) = Some (sin t)" using s0 by (simp add: js_sqrt_def)
  have "calculateDistance 0 (Some la) (Some lo) (Some (la + x)) (Some lo) = Some (6371 * 2 * t)"
    using atan2_sin_cos [OF t0 t1] by (simp add: calculateDistance_def a r1 r2)
  then show ?thesis by (simp add: t_def)
qed

lemma calculateDistance_same [simp]:
  "calculateDistance 0 (Some la) (Some lo) (Some la) (Some lo) = Some 0"
  using calculateDistance_meridian [of 0 la lo] by simp

text \<open>
  In exact arithmetic the haversine term lies between \<open>0\<close> and \<open>1\<close> for all coordinates,
  so without a rounding error the distance of four numbers is a number. With a rounding
  error that takes the term above \<open>1\<close>, the distance is \<^verbatim>\<open>NaN\<close>.
\<close>

lemma haversine_a_range:
  "0 \<le> haversine_a lat1 lon1 lat2 lon2 \<and> haversine_a lat1 lon1 lat2 lon2 \<le> 1"
proof -
  define p where "p = lat1 * (pi / 180)"
  define q where "q = lat2 * (pi / 180)"
  define s where "s = sin ((lon2 - lon1) * (pi / 180) / 2) * sin ((lon2 - lon1) * (pi / 180) / 2)"
  have s: "0 \<le> s" "s \<le> 1"
    using sin_le_one [of "(lon2 - lon1) * (pi / 180) / 2"]
          sin_ge_minus_one [of "(lon2 - lon1) * (pi / 180) / 2"]
    unfolding s_def by (simp, simp add: square_le_1 flip: power2_eq_square)
  have "2 * ((q - p) / 2) = q - p" by simp
  then have "cos (q - p) = 1 - 2 * (sin ((q - p) / 2))\<^sup>2"
    using cos_double_sin [of "(q - p) / 2"] by (simp only:)
  then have h: "sin ((q - p) / 2) * sin ((q - p) / 2) = (1 - cos (q - p)) / 2"
    by (simp add: power2_eq_square)
  have "haversine_a lat1 lon1 lat2 lon2 =
          sin ((q - p) / 2) * sin ((q - p) / 2) + cos p * cos q * s"
    unfolding haversine_a_def Let_def p_def q_def s_def left_diff_distrib
    by (simp only: mult.assoc)
  then have a: "haversine_a lat1 lon1 lat2 lon2 = (1 - cos (q - p)) / 2 + cos p * cos q * s"
    unfolding h .
  have cc: "cos p * cos q = (cos (q - p) + cos (q + p)) / 2"
    using cos_times_cos [of q p] by (simp add: mult.commute)
  have a': "haversine_a lat1 lon1 lat2 lon2 =
      (1 - s) * ((1 - cos (q - p)) / 2) + s * ((1 + cos (q + p)) / 2)"
    unfolding a cc by (simp add: field_simps)
  have e0: "0 \<le> (1 - cos (q - p)) / 2 \<and> (1 - cos (q - p)) / 2 \<le> 1"
    using cos_le_one [of "q - p"] cos_ge_minus_one [of "q - p"] by argo
  have e1: "0 \<le> (1 + cos (q + p)) / 2 \<and> (1 + cos (q + p)) / 2 \<le> 1"
    using cos_le_one [of "q + p"] cos_ge_minus_one [of "q + p"] by argo
  have "0 \<le> (1 - s) * ((1 - cos (q - p)) / 2) + s * ((1 + cos (q + p)) / 2)"
    using s e0 e1 by (intro add_nonneg_nonneg mult_nonneg_nonneg) simp_all
  moreover have "(1 - s) * ((1 - cos (q - p)) / 2) + s * ((1 + cos (q + p)) / 2)
                 \<le> (1 - s) * 1 + s * 1"
    using s e0 e1 by (intro add_mono mult_left_mono) simp_all
  ultimately show ?thesis unfolding a' by simp
qed

lemma calculateDistance_exact:
  "\<exists>d. calculateDistance 0 (Some lat1) (Some lon1) (Some lat2) (Some lon2) = Some d"
  using haversine_a_range [of lat1 lon1 lat2 lon2]
  by (simp add: calculateDistance_def js_sqrt_def Let_def)

lemma calculateDistance_NaN:
  "1 < haversine_a lat1 lon1 lat2 lon2 + err \<Longrightarrow>
   calculateDistance err (Some lat1) (Some lon1) (Some lat2) (Some lon2) = None"
  by (simp add: calculateDistance_def js_sqrt_def Let_def)

text \<open>Between a point and its antipode the haversine term is \<open>1\<close>.\<close>

lemma haversine_a_antipode: "haversine_a (- x) (lo - 180) x lo = 1"
proof -
  have e1: "(lo - (lo - 180)) * (pi / 180) / 2 = pi / 2" by simp
  have e2: "(x - - x) * (pi / 180) / 2 = x * (pi / 180)" by simp
  have e3: "- x * (pi / 180) = - (x * (pi / 180))" by simp
  show ?thesis
    unfolding haversine_a_def Let_def e1 e2 e3 cos_minus
    using sin_cos_squared_add [of "x * (pi / 180)"] by (simp add: power2_eq_square)
qed

lemma calculateDistance_antipode:
  "calculateDistance 0 (Some (- x)) (Some (lo - 180)) (Some x) (Some lo) = Some (6371 * pi)"
  by (simp add: calculateDistance_def haversine_a_antipode js_sqrt_def atan2_def Let_def)



lemma dist_far: "calculateDistance 0 (Some 0) (Some 0) (Some 1) (Some 0) = Some (6371 * pi / 180)"
proof -
  have "calculateDistance 0 (Some 0) (Some 0) (Some (0 + 1)) (Some 0) =
        Some (6371 * (1 * (pi / 180)))"
    by (rule calculateDistance_meridian) simp_all
  then show ?thesis by simp
qed

lemma dist_mid:
  "calculateDistance 0 (Some 0) (Some 0) (Some (1/100)) (Some 0) = Some (6371 * pi / 18000)"
proof -
  have "calculateDistance 0 (Some 0) (Some 0) (Some (0 + 1/100)) (Some 0) =
        Some (6371 * (1/100 * (pi / 180)))"
    by (rule calculateDistance_meridian) simp_all
  then show ?thesis by simp
qed

text \<open>
  When the computed distance is a number \<open>d\<close>, the location factor is the function of
  \<open>d\<close> that the specification gives: \<open>0\<close> and invalid above \<open>2.0\<close>; \<open>1.0\<close> and valid up to
  \<open>0.5\<close>; in between \<open>1 - (d - 0.5) / (2.0 - 0.5)\<close>, valid, below \<open>1\<close>, strictly decreasing in
  the distance and \<open>0\<close> at \<open>2.0\<close>.
\<close>

lemma calculateLocationFactor_number:
  assumes "calculateDistance err userLat userLon stationLat stationLon = Some d"
  shows "distance (calculateLocationFactor err userLat userLon stationLat stationLon) = Some d"
    and "d > 2.0 \<Longrightarrow>
           calculateLocationFactor err userLat userLon stationLat stationLon =
             \<lparr> factor = Some 0, distance = Some d, isValid = False \<rparr>"
    and "d \<le> 0.5 \<Longrightarrow>
           calculateLocationFactor err userLat userLon stationLat stationLon =
             \<lparr> factor = Some 1, distance = Some d, isValid = True \<rparr>"
    and "0.5 < d \<Longrightarrow> d \<le> 2.0 \<Longrightarrow>
           calculateLocationFactor err userLat userLon stationLat stationLon =
             \<lparr> factor = Some (1 - (d - 0.5) / (2.0 - 0.5)), distance = Some d, isValid = True \<rparr> \<and>
           0 \<le> 1 - (d - 0.5) / (2.0 - 0.5) \<and> 1 - (d - 0.5) / (2.0 - 0.5) < 1"
  using assms by (auto simp: calculateLocationFactor_def max_def field_simps)

lemma calculateLocationFactor_examples:
  "calculateLocationFactor 0 (Some 0) (Some 0) (Some 0) (Some 0) =
     \<lparr> factor = Some 1, distance = Some 0, isValid = True \<rparr>"
  "calculateLocationFactor 0 (Some 0) (Some 0) (Some 1) (Some 0) =
     \<lparr> factor = Some 0, distance = Some (6371 * pi / 180), isValid = False \<rparr>"
  "calculateLocationFactor 0 (Some 0) (Some 0) (Some (1/100)) (Some 0) =
     \<lparr> factor = Some (1 - (6371 * pi / 18000 - 0.5) / (2.0 - 0.5)),
       distance = Some (6371 * pi / 18000), isValid = True \<rparr>"
proof -
  have m: "0.5 < 6371 * pi / 18000" "6371 * pi / 18000 \<le> 2.0" "2.0 < 6371 * pi / 180"
    using pi_ge_two pi_less_4 by simp_all
  show "calculateLocationFactor 0 (Some 0) (Some 0) (Some 0) (Some 0) =
     \<lparr> factor = Some 1, distance = Some 0, isValid = True \<rparr>"
    using calculateLocationFactor_number(3) [OF calculateDistance_same [of 0 0]] by simp
  show "calculateLocationFactor 0 (Some 0) (Some 0) (Some 1) (Some 0) =
     \<lparr> factor = Some 0, distance = Some (6371 * pi / 180), isValid = False \<rparr>"
    using calculateLocationFactor_number(2) [OF dist_far m(3)] .
  show "calculateLocationFactor 0 (Some 0) (Some 0) (Some (1/100)) (Some 0) =
     \<lparr> factor = Some (1 - (6371 * pi / 18000 - 0.5) / (2.0 - 0.5)),
       distance = Some (6371 * pi / 18000), isValid = True \<rparr>"
    using calculateLocationFactor_number(4) [OF dist_mid m(1) m(2)] by simp
qed

lemma calculateDistance_antipode_rounded:
  "calculateDistance (1 / 2 ^ 52) (Some (- 14.7)) (Some (- 179)) (Some 14.7) (Some 1) = None"
proof -
  have a: "haversine_a (- 14.7) (- 179) 14.7 1 = 1"
    using haversine_a_antipode [of "14.7" 1] by simp
  show ?thesis by (rule calculateDistance_NaN) (simp add: a)
qed

lemma calculateLocationFactor_NaN:
  "calculateDistance err userLat userLon stationLat stationLon = None \<Longrightarrow>
   calculateLocationFactor err userLat userLon stationLat stationLon =
     \<lparr> factor = None, distance = None, isValid = True \<rparr>"
  by (simp add: calculateLocationFactor_def)

text \<open>
  Claim C4, at an input where the code departs from it. The submitter is at the
  antipode of a station at latitude 14.7 and longitude 1. In exact arithmetic the
  distance is \<open>6371 \<pi>\<close> km, more than \<open>2.0\<close>, for which the claim gives the factor \<open>0\<close> and
  the validity flag false. In double precision the haversine term is \<open>1 + 2\<^sup>-\<^sup>5\<^sup>2\<close>, the
  distance is \<^verbatim>\<open>NaN\<close>, and the code returns the factor \<^verbatim>\<open>NaN\<close> and the validity flag true.
\<close>

theorem calculateLocationFactor_antipode:
  "calculateLocationFactor (1 / 2 ^ 52) (Some (- 14.7)) (Some (- 179)) (Some 14.7) (Some 1) =
     \<lparr> factor = None, distance = None, isValid = True \<rparr> \<and>
   calculateLocationFactor 0 (Some (- 14.7)) (Some (- 179)) (Some 14.7) (Some 1) =
     \<lparr> factor = Some 0, distance = Some (6371 * pi), isValid = False \<rparr>"
proof -
  have n: "calculateLocationFactor (1 / 2 ^ 52) (Some (- 14.7)) (Some (- 179)) (Some 14.7) (Some 1) =
     \<lparr> factor = None, distance = None, isValid = True \<rparr>"
    by (rule calculateLocationFactor_NaN [OF calculateDistance_antipode_rounded])
  have d: "calculateDistance 0 (Some (- 14.7)) (Some (- 179)) (Some 14.7) (Some 1) = Some (6371 * pi)"
    using calculateDistance_antipode [of "14.7" 1] by simp
  have "2.0 < 6371 * pi" using pi_ge_two by simp
  from calculateLocationFactor_number(2) [OF d this] n show ?thesis by simp
qed
section \<open>Requests that are turned away\<close>

lemma process_submission_unusable:
  "station_unusable (fuel_stations s sid) \<Longrightarrow>
   process_submission env s sid ft uid ulat ulon =
     (\<lparr> status = 404, body = Error ''Station not found or missing coordinates'' \<rparr>, s)"
  by (simp add: process_submission_def station_coords_def)

lemma submit_report_present:
  "\<not> missing_required r \<Longrightarrow>
   \<exists>sid ft uid.
     req_station_id r = Some sid \<and> req_fuel_type r = Some ft \<and>
     req_anonymous_user_id r = Some uid \<and> req_user_lat r \<noteq> JAbsent \<and>
     req_user_lon r \<noteq> JAbsent \<and> sid \<noteq> [] \<and> ft \<noteq> [] \<and> uid \<noteq> [] \<and>
     submit_report env s r =
       process_submission env s sid ft uid (req_user_lat r) (req_user_lon r)"
  by (auto simp: missing_required_def falsy_string_def submit_report_def)

text \<open>
  The requests that the checks of lines 64-76 do turn away. A request with a \<^verbatim>\<open>report\<close>
  object in which the station id, the fuel type or the submitter id is absent, or the
  latitude or the longitude is \<^verbatim>\<open>undefined\<close>, is answered with the client error 400 and
  leaves the store as it was. A request that passes this check and names an unknown
  station, or a station without a latitude or a longitude, is answered with the
  not-found error 404 and leaves the store as it was.
\<close>

lemma turned_away:
  "(req_station_id r = None \<or> req_fuel_type r = None \<or> req_anonymous_user_id r = None \<or>
    req_user_lat r = JAbsent \<or> req_user_lon r = JAbsent \<longrightarrow>
      serve env s (Body ''submit_report'' (Some r)) =
        (\<lparr> status = 400, body = Error ''Missing required fields'' \<rparr>, s)) \<and>
   (\<not> missing_required r \<and> req_station_id r = Some sid \<and>
    (fuel_stations s sid = None \<or>
     (\<exists>st. fuel_stations s sid = Some st \<and> (lat st = None \<or> lon st = None))) \<longrightarrow>
      serve env s (Body ''submit_report'' (Some r)) =
        (\<lparr> status = 404, body = Error ''Station not found or missing coordinates'' \<rparr>, s))"
proof (intro conjI impI)
  assume "req_station_id r = None \<or> req_fuel_type r = None \<or> req_anonymous_user_id r = None \<or>
    req_user_lat r = JAbsent \<or> req_user_lon r = JAbsent"
  then have "missing_required r"
    by (auto simp: missing_required_def falsy_string_def)
  then show "serve env s (Body ''submit_report'' (Some r)) =
        (\<lparr> status = 400, body = Error ''Missing required fields'' \<rparr>, s)"
    by (simp add: serve_def submit_report_def)
next
  assume a: "\<not> missing_required r \<and> req_station_id r = Some sid \<and>
    (fuel_stations s sid = None \<or>
     (\<exists>st. fuel_stations s sid = Some st \<and> (lat st = None \<or> lon st = None)))"
  then have u: "station_unusable (fuel_stations s sid)"
    by (auto simp: station_unusable_def falsy_number_def)
  from a submit_report_present [of r env s] obtain ft uid where
    "submit_report env s r =
       process_submission env s sid ft uid (req_user_lat r) (req_user_lon r)" by auto
  then show "serve env s (Body ''submit_report'' (Some r)) =
        (\<lparr> status = 404, body = Error ''Station not found or missing coordinates'' \<rparr>, s)"
    using u by (simp add: serve_def process_submission_unusable)
qed

lemma turned_away_examples:
  "serve env0 st0 (Body ''submit_report'' (Some (sub0\<lparr>req_user_lat := JAbsent\<rparr>))) =
     (\<lparr> status = 400, body = Error ''Missing required fields'' \<rparr>, st0)"
  "serve env0 st0 (Body ''submit_report'' (Some (sub0\<lparr>req_station_id := Some ''s9''\<rparr>))) =
     (\<lparr> status = 404, body = Error ''Station not found or missing coordinates'' \<rparr>, st0)"
  "serve env0 st0 (Body ''submit_report'' (Some (sub0\<lparr>req_station_id := Some ''s2''\<rparr>))) =
     (\<lparr> status = 404, body = Error ''Station not found or missing coordinates'' \<rparr>, st0)"
  using turned_away [of "sub0\<lparr>req_user_lat := JAbsent\<rparr>" env0 st0 "''s1''"]
        turned_away [of "sub0\<lparr>req_station_id := Some ''s9''\<rparr>" env0 st0 "''s9''"]
        turned_away [of "sub0\<lparr>req_station_id := Some ''s2''\<rparr>" env0 st0 "''s2''"]
  by (simp_all add: sub0_def st0_def missing_required_def falsy_string_def)

text \<open>
  Claim C10. A \<^verbatim>\<open>submit_report\<close> request with all required fields whose station has the
  latitude \<open>0\<close> or the longitude \<open>0\<close> stored is answered with the error "Station not found or
  missing coordinates" (404) and leaves the store as it was: the check of the coordinates
  takes the number \<open>0\<close> for an absent value.
\<close>

theorem zero_coordinate_station_not_found:
  "\<not> missing_required r \<Longrightarrow> req_station_id r = Some sid \<Longrightarrow>
   fuel_stations s sid = Some st \<Longrightarrow> lat st = Some 0 \<or> lon st = Some 0 \<Longrightarrow>
   serve env s (Body ''submit_report'' (Some r)) =
     (\<lparr> status = 404, body = Error ''Station not found or missing coordinates'' \<rparr>, s)"
proof -
  assume a: "\<not> missing_required r" "req_station_id r = Some sid"
    "fuel_stations s sid = Some st" "lat st = Some 0 \<or> lon st = Some 0"
  then have u: "station_unusable (fuel_stations s sid)"
    by (auto simp: station_unusable_def falsy_number_def)
  from a submit_report_present [of r env s] obtain ft uid where
    "submit_report env s r =
       process_submission env s sid ft uid (req_user_lat r) (req_user_lon r)" by auto
  then show ?thesis
    using u by (simp add: serve_def process_submission_unusable)
qed

theorem zero_coordinate_station_not_found_witness:
  "serve env0 st0 (Body ''submit_report'' (Some (sub0\<lparr>req_station_id := Some ''s0''\<rparr>))) =
     (\<lparr> status = 404, body = Error ''Station not found or missing coordinates'' \<rparr>, st0)"
  using zero_coordinate_station_not_found
          [of "sub0\<lparr>req_station_id := Some ''s0''\<rparr>" "''s0''" st0 "\<lparr> lat = Some 0, lon = Some 1 \<rparr>" env0]
  by (simp add: sub0_def st0_def missing_required_def falsy_string_def)

section \<open>The consensus run\<close>

lemma mark_verified_length [simp]: "length (mark_verified ys rows) = length rows"
  unfolding mark_verified_def by (induction ys arbitrary: rows) simp_all

lemma mark_verified_Cons:
  "mark_verified (y # ys) rows =
     mark_verified ys (rows[fst y := (rows ! fst y)\<lparr>is_verified := True\<rparr>])"
  by (simp add: mark_verified_def)

lemma mark_verified_nth:
  "i < length rows \<Longrightarrow>
   mark_verified ys rows ! i =
     (if i \<in> fst ` set ys then (rows ! i)\<lparr>is_verified := True\<rparr> else rows ! i)"
proof (induction ys arbitrary: rows)
  case Nil
  then show ?case by (simp add: mark_verified_def)
next
  case (Cons y ys)
  then show ?case
    by (cases "i = fst y") (auto simp: mark_verified_Cons nth_list_update)
qed

lemma flags_only_refl [simp]: "flags_only rows rows"
  by (simp add: flags_only_def)

lemma flags_only_trans:
  "flags_only a b \<Longrightarrow> flags_only b c \<Longrightarrow> flags_only a c"
  unfolding flags_only_def
  by (metis (no_types, lifting) report.surjective report.update_convs(11))

lemma flags_only_mark_verified: "flags_only rows (mark_verified ys rows)"
  by (simp add: flags_only_def mark_verified_nth)

lemma publish_frame [simp]:
  "fuel_stations (publish env sid ft fr s) = fuel_stations s"
  "user_trust_scores (publish env sid ft fr s) = user_trust_scores s"
  "crowdsourced_reports (publish env sid ft fr s) = mark_verified fr (crowdsourced_reports s)"
  by (simp_all add: publish_def)

lemma publish_verified:
  "verified_fuel_data (publish env sid ft fr s) key =
     (if key = (sid, ft)
      then Some \<lparr> is_available = True, confidence_score = finalScore fr,
                  verified_by_count = uniqueUsers fr, last_verified_at = t_verify env ft \<rparr>
      else verified_fuel_data s key)"
  by (simp add: publish_def)

lemma consensus_loop_Cons:
  "consensus_loop env sid ((ft, fr) # g) s =
     consensus_loop env sid g
       (if 2 \<le> uniqueUsers fr \<and> 0.4 \<le> finalScore fr then publish env sid ft fr s else s)"
  by simp

lemma consensus_loop_frame [simp]:
  "fuel_stations (consensus_loop env sid g s) = fuel_stations s"
  "user_trust_scores (consensus_loop env sid g s) = user_trust_scores s"
  by (induction g arbitrary: s) auto

lemma consensus_loop_flags_only:
  "flags_only (crowdsourced_reports s) (crowdsourced_reports (consensus_loop env sid g s))"
proof (induction g arbitrary: s)
  case Nil
  then show ?case by simp
next
  case (Cons x g)
  obtain ft fr where x: "x = (ft, fr)" by (cases x)
  show ?case
    unfolding x consensus_loop_Cons
    using Cons.IH flags_only_mark_verified flags_only_trans
    by (metis (full_types) publish_frame(3))
qed

lemma consensus_loop_marks:
  "(ft, fr) \<in> set g \<Longrightarrow> 2 \<le> uniqueUsers fr \<Longrightarrow> 0.4 \<le> finalScore fr \<Longrightarrow>
   i \<in> fst ` set fr \<Longrightarrow> i < length (crowdsourced_reports s) \<Longrightarrow>
   is_verified (crowdsourced_reports (consensus_loop env sid g s) ! i)"
proof (induction g arbitrary: s)
  case Nil
  then show ?case by simp
next
  case (Cons x g)
  obtain ft' fr' where x: "x = (ft', fr')" by (cases x)
  let ?s1 = "if 2 \<le> uniqueUsers fr' \<and> 0.4 \<le> finalScore fr' then publish env sid ft' fr' s else s"
  have len: "length (crowdsourced_reports ?s1) = length (crowdsourced_reports s)" by simp
  show ?case
  proof (cases "(ft, fr) = x")
    case True
    then have "is_verified (crowdsourced_reports ?s1 ! i)"
      using Cons.prems x by (simp add: mark_verified_nth)
    moreover have "flags_only (crowdsourced_reports ?s1)
        (crowdsourced_reports (consensus_loop env sid g ?s1))"
      by (rule consensus_loop_flags_only)
    ultimately show ?thesis
      unfolding x consensus_loop_Cons using Cons.prems(5) len
      by (simp add: flags_only_def del: consensus_loop.simps)
  next
    case False
    then have "(ft, fr) \<in> set g" using Cons.prems(1) by simp
    then show ?thesis
      unfolding x consensus_loop_Cons
      using Cons.IH [of ?s1] Cons.prems len by simp
  qed
qed

lemma consensus_loop_marks_only:
  "i < length (crowdsourced_reports s) \<Longrightarrow>
   is_verified (crowdsourced_reports (consensus_loop env sid g s) ! i) \<Longrightarrow>
   is_verified (crowdsourced_reports s ! i) \<or>
   (\<exists>(ft, fr) \<in> set g. 2 \<le> uniqueUsers fr \<and> 0.4 \<le> finalScore fr \<and> i \<in> fst ` set fr)"
proof (induction g arbitrary: s)
  case Nil
  then show ?case by simp
next
  case (Cons x g)
  obtain ft' fr' where x: "x = (ft', fr')" by (cases x)
  let ?s1 = "if 2 \<le> uniqueUsers fr' \<and> 0.4 \<le> finalScore fr' then publish env sid ft' fr' s else s"
  have len: "length (crowdsourced_reports ?s1) = length (crowdsourced_reports s)" by simp
  from Cons.prems have "is_verified (crowdsourced_reports ?s1 ! i) \<or>
   (\<exists>(ft, fr) \<in> set g. 2 \<le> uniqueUsers fr \<and> 0.4 \<le> finalScore fr \<and> i \<in> fst ` set fr)"
    unfolding x consensus_loop_Cons using Cons.IH [of ?s1] len by simp
  then show ?case
    using Cons.prems(1) unfolding x
    by (auto simp: mark_verified_nth split: if_splits)
qed

lemma consensus_loop_verified:
  "distinct (map fst g) \<Longrightarrow>
   verified_fuel_data (consensus_loop env sid g s) (st, ft) =
     (case map_of g ft of
        Some fr \<Rightarrow>
          if st = sid \<and> 2 \<le> uniqueUsers fr \<and> 0.4 \<le> finalScore fr
          then Some \<lparr> is_available = True, confidence_score = finalScore fr,
                      verified_by_count = uniqueUsers fr, last_verified_at = t_verify env ft \<rparr>
          else verified_fuel_data s (st, ft)
      | None \<Rightarrow> verified_fuel_data s (st, ft))"
proof (induction g arbitrary: s)
  case Nil
  then show ?case by simp
next
  case (Cons x g)
  obtain ft' fr' where x: "x = (ft', fr')" by (cases x)
  let ?s1 = "if 2 \<le> uniqueUsers fr' \<and> 0.4 \<le> finalScore fr' then publish env sid ft' fr' s else s"
  from Cons.prems have d: "distinct (map fst g)" and nin: "ft' \<notin> fst ` set g"
    by (simp_all add: x)
  have none: "map_of g ft' = None" using nin by (simp add: map_of_eq_None_iff)
  show ?case
    unfolding x consensus_loop_Cons Cons.IH [OF d, of ?s1]
    by (cases "ft = ft'") (auto simp: none publish_verified split: option.splits)
qed

section \<open>Grouping\<close>

lemma push_group_keys:
  "map fst (push_group k x g) = (if k \<in> fst ` set g then map fst g else map fst g @ [k])"
  by (induction g) (auto split: if_splits)

lemma push_group_distinct:
  "distinct (map fst g) \<Longrightarrow> distinct (map fst (push_group k x g))"
  by (simp add: push_group_keys)

lemma push_group_map_of:
  "map_of (push_group k x g) k' =
     (if k' = k then Some ((case map_of g k of None \<Rightarrow> [] | Some ys \<Rightarrow> ys) @ [x])
      else map_of g k')"
  by (induction g) auto

lemma groupByFuelType_Inl:
  "groupByFuelType xs g = Inl e \<Longrightarrow>
   e = TypeError \<and> (\<exists>x \<in> set xs. fuel_type (snd x) \<in> set inherited)"
  by (induction xs arbitrary: g) (auto split: if_splits)

lemma groupByFuelType_Inr_iff:
  "(\<exists>g'. groupByFuelType xs g = Inr g') \<longleftrightarrow> (\<forall>x \<in> set xs. fuel_type (snd x) \<notin> set inherited)"
  by (induction xs arbitrary: g) auto

lemma groupByFuelType_distinct:
  "groupByFuelType xs g = Inr g' \<Longrightarrow> distinct (map fst g) \<Longrightarrow> distinct (map fst g')"
  by (induction xs arbitrary: g) (auto split: if_splits simp: push_group_distinct)

lemma groupByFuelType_map_of:
  "groupByFuelType xs g = Inr g' \<Longrightarrow>
   map_of g' k =
     (if group_of k xs = [] then map_of g k
      else Some ((case map_of g k of None \<Rightarrow> [] | Some ys \<Rightarrow> ys) @ group_of k xs))"
proof (induction xs arbitrary: g)
  case Nil
  then show ?case by (simp add: group_of_def)
next
  case (Cons x xs)
  then have "groupByFuelType xs (push_group (fuel_type (snd x)) x g) = Inr g'"
    by (simp split: if_splits)
  from Cons.IH [OF this] show ?case
    by (auto simp: push_group_map_of group_of_def split: option.splits)
qed

lemma groups_of_window:
  assumes "groupByFuelType w [] = Inr g"
  shows "(ft, fr) \<in> set g \<longleftrightarrow> fr = group_of ft w \<and> fr \<noteq> []"
proof -
  have d: "distinct (map fst g)" using groupByFuelType_distinct [OF assms] by simp
  have "(ft, fr) \<in> set g \<longleftrightarrow> map_of g ft = Some fr"
    using d by simp
  then show ?thesis
    using groupByFuelType_map_of [OF assms, of ft] by auto
qed

section \<open>The window\<close>

lemma in_set_enumerate:
  "(i, r) \<in> set (zip [0..<length rows] rows) \<longleftrightarrow> i < length rows \<and> r = rows ! i"
proof
  assume "(i, r) \<in> set (zip [0..<length rows] rows)"
  then show "i < length rows \<and> r = rows ! i" by (auto simp: set_zip)
next
  assume a: "i < length rows \<and> r = rows ! i"
  then have "zip [0..<length rows] rows ! i = (i, r)" by simp
  moreover have "i < length (zip [0..<length rows] rows)" using a by simp
  ultimately show "(i, r) \<in> set (zip [0..<length rows] rows)" by (metis nth_mem)
qed

lemma window_mem:
  "(i, r) \<in> set (window env sid rows) \<longleftrightarrow>
     i < length rows \<and> r = rows ! i \<and> station_id r = sid \<and> \<not> is_rejected r \<and>
     cutoffDate env \<le> timestamp r"
  by (auto simp: window_def in_set_enumerate)

lemma window_append:
  "window env sid (rows @ [row]) =
     window env sid rows @
       (if station_id row = sid \<and> \<not> is_rejected row \<and> cutoffDate env \<le> timestamp row
        then [(length rows, row)] else [])"
  by (simp add: window_def zip_append1)

lemma flags_only_fields:
  assumes "flags_only rows rows'" "i < length rows"
  shows "station_id (rows' ! i) = station_id (rows ! i)"
    "anonymous_user_id (rows' ! i) = anonymous_user_id (rows ! i)"
    "fuel_type (rows' ! i) = fuel_type (rows ! i)"
    "timestamp (rows' ! i) = timestamp (rows ! i)"
    "is_rejected (rows' ! i) = is_rejected (rows ! i)"
    "dve_score (rows' ! i) = dve_score (rows ! i)"
    "trust_score_at_submission (rows' ! i) = trust_score_at_submission (rows ! i)"
    "time_decay_factor (rows' ! i) = time_decay_factor (rows ! i)"
    "location_factor (rows' ! i) = location_factor (rows ! i)"
    "rejection_reason (rows' ! i) = rejection_reason (rows ! i)"
proof -
  from assms obtain b where "rows' ! i = (rows ! i)\<lparr>is_verified := b\<rparr>"
    unfolding flags_only_def by blast
  then show "station_id (rows' ! i) = station_id (rows ! i)"
    "anonymous_user_id (rows' ! i) = anonymous_user_id (rows ! i)"
    "fuel_type (rows' ! i) = fuel_type (rows ! i)"
    "timestamp (rows' ! i) = timestamp (rows ! i)"
    "is_rejected (rows' ! i) = is_rejected (rows ! i)"
    "dve_score (rows' ! i) = dve_score (rows ! i)"
    "trust_score_at_submission (rows' ! i) = trust_score_at_submission (rows ! i)"
    "time_decay_factor (rows' ! i) = time_decay_factor (rows ! i)"
    "location_factor (rows' ! i) = location_factor (rows ! i)"
    "rejection_reason (rows' ! i) = rejection_reason (rows ! i)"
    by simp_all
qed

lemma submitters_window:
  "submitters (group_of ft (window env sid rows)) =
     {anonymous_user_id (rows ! i) | i. i < length rows \<and> station_id (rows ! i) = sid \<and>
        \<not> is_rejected (rows ! i) \<and> cutoffDate env \<le> timestamp (rows ! i) \<and>
        fuel_type (rows ! i) = ft}"
  unfolding submitters_def group_of_def
  by (force simp: window_mem image_iff)

lemma submitters_flags_only:
  assumes "flags_only rows rows'"
  shows "submitters (group_of ft (window env sid rows')) =
         submitters (group_of ft (window env sid rows))"
proof -
  have len: "length rows' = length rows" using assms by (simp add: flags_only_def)
  show ?thesis
    unfolding submitters_window len
    using flags_only_fields [OF assms] by (intro Collect_cong ex_cong1) auto
qed

lemma uniqueUsers_card: "uniqueUsers fr = card (submitters fr)"
  by (simp add: uniqueUsers_def submitters_def length_remdups_card_conv image_image)

lemma foldl_add_sum: "foldl (\<lambda>sum r. sum + f r) a xs = a + sum_list (map f xs)"
  for a :: real
  by (induction xs arbitrary: a) simp_all

lemma avgScore_mean: "avgScore fr = mean_score fr"
  by (simp add: avgScore_def mean_score_def foldl_add_sum)

lemma finalScore_mean: "finalScore fr = min 1 (mean_score fr + 0.2)"
  by (simp add: finalScore_def avgScore_mean)

lemma submitters_length: "card (submitters fr) \<le> length fr"
  unfolding submitters_def by (metis card_image_le card_length le_trans List.finite_set)

lemma length_group_of: "length (group_of ft w) \<le> length w"
  by (simp add: group_of_def)

section \<open>The consensus run as a whole\<close>

lemma run_consensus_cases:
  obtains (skip) "length (window env sid (crowdsourced_reports s)) < 2"
      "run_consensus env sid s = Inr s"
  | (throw) "2 \<le> length (window env sid (crowdsourced_reports s))"
      "\<exists>x \<in> set (window env sid (crowdsourced_reports s)). fuel_type (snd x) \<in> set inherited"
      "run_consensus env sid s = Inl TypeError"
  | (loop) g where "2 \<le> length (window env sid (crowdsourced_reports s))"
      "groupByFuelType (window env sid (crowdsourced_reports s)) [] = Inr g"
      "run_consensus env sid s = Inr (consensus_loop env sid g s)"
proof (cases "2 \<le> length (window env sid (crowdsourced_reports s))")
  case False
  then have "run_consensus env sid s = Inr s" by (simp add: run_consensus_def)
  with False skip show ?thesis by simp
next
  case True
  show ?thesis
  proof (cases "groupByFuelType (window env sid (crowdsourced_reports s)) []")
    case (Inl e)
    from groupByFuelType_Inl [OF Inl] True Inl throw show ?thesis
      by (simp add: run_consensus_def)
  next
    case (Inr g)
    with True loop show ?thesis by (simp add: run_consensus_def)
  qed
qed

lemma after_consensus_frame [simp]:
  "fuel_stations (after_consensus env sid s) = fuel_stations s"
  "user_trust_scores (after_consensus env sid s) = user_trust_scores s"
  by (cases env sid s rule: run_consensus_cases; simp add: after_consensus_def)+

lemma after_consensus_flags_only:
  "flags_only (crowdsourced_reports s) (crowdsourced_reports (after_consensus env sid s))"
  by (cases env sid s rule: run_consensus_cases)
     (simp_all add: after_consensus_def consensus_loop_flags_only)

lemma after_consensus_length [simp]:
  "length (crowdsourced_reports (after_consensus env sid s)) = length (crowdsourced_reports s)"
  using after_consensus_flags_only [of s env sid] by (simp add: flags_only_def)

lemma after_consensus_changes:
  assumes "verified_fuel_data (after_consensus env sid s) (st, ft) \<noteq> verified_fuel_data s (st, ft)"
  shows "st = sid \<and>
         2 \<le> card (submitters (group_of ft (window env sid (crowdsourced_reports s))))"
proof (cases env sid s rule: run_consensus_cases)
  case skip
  with assms show ?thesis by (simp add: after_consensus_def)
next
  case throw
  with assms show ?thesis by (simp add: after_consensus_def)
next
  case (loop g)
  have d: "distinct (map fst g)" using groupByFuelType_distinct [OF loop(2)] by simp
  from assms loop(3) obtain fr where fr: "map_of g ft = Some fr"
    and q: "st = sid" "2 \<le> uniqueUsers fr"
    by (auto simp: after_consensus_def consensus_loop_verified [OF d]
             split: option.splits if_splits)
  from fr have "(ft, fr) \<in> set g" by (rule map_of_SomeD)
  then have "fr = group_of ft (window env sid (crowdsourced_reports s))"
    using groups_of_window [OF loop(2)] by simp
  with q show ?thesis by (simp add: uniqueUsers_card)
qed

text \<open>
  What the loop of lines 132-150 does when the grouping of lines 126-130 completes. For
  every group that the grouping forms (the windowed reports of one fuel type) and that
  has at least two distinct submitters: if \<open>min(1.0, mean + 0.2)\<close>, where \<open>mean\<close> is the
  arithmetic mean of the scores of the group's reports, is at least \<open>0.4\<close>, then after the
  run the Verified Fuel Entry of the station and fuel type has availability true, that
  number as its confidence, the number of distinct submitters of the group as its
  verified-by count and the clock reading of the upsert as its last-verified time, and
  every report of the group is marked verified and otherwise unchanged.
\<close>

lemma consensus_publishes_group:
  assumes "groupByFuelType (window env sid (crowdsourced_reports s)) [] = Inr g"
    and "(ft, fr) \<in> set g"
    and "2 \<le> card (submitters fr)"
  shows "fr = group_of ft (window env sid (crowdsourced_reports s)) \<and>
    (\<exists>s'. run_consensus env sid s = Inr s' \<and>
       (0.4 \<le> min 1.0 (mean_score fr + 0.2) \<longrightarrow>
          verified_fuel_data s' (sid, ft) =
            Some \<lparr> is_available = True,
                   confidence_score = min 1.0 (mean_score fr + 0.2),
                   verified_by_count = card (submitters fr),
                   last_verified_at = t_verify env ft \<rparr> \<and>
          (\<forall>(i, r) \<in> set fr. i < length (crowdsourced_reports s') \<and>
             crowdsourced_reports s' ! i = r\<lparr>is_verified := True\<rparr>)))"
proof -
  let ?w = "window env sid (crowdsourced_reports s)"
  have fr: "fr = group_of ft ?w" using groups_of_window [OF assms(1)] assms(2) by simp
  have "2 \<le> length fr" using assms(3) submitters_length [of fr] by linarith
  then have w2: "2 \<le> length ?w" using length_group_of [of ft ?w] unfolding fr by simp
  have run: "run_consensus env sid s = Inr (consensus_loop env sid g s)"
    using w2 assms(1) by (simp add: run_consensus_def)
  have d: "distinct (map fst g)" using groupByFuelType_distinct [OF assms(1)] by simp
  have m: "map_of g ft = Some fr" using d assms(2) by simp
  let ?s' = "consensus_loop env sid g s"
  have u: "2 \<le> uniqueUsers fr" using assms(3) by (simp add: uniqueUsers_card)
  {
    assume c: "0.4 \<le> min 1.0 (mean_score fr + 0.2)"
    then have f: "0.4 \<le> finalScore fr" by (simp add: finalScore_mean)
    have v: "verified_fuel_data ?s' (sid, ft) =
            Some \<lparr> is_available = True,
                   confidence_score = min 1.0 (mean_score fr + 0.2),
                   verified_by_count = card (submitters fr),
                   last_verified_at = t_verify env ft \<rparr>"
      using u f by (simp add: consensus_loop_verified [OF d] m finalScore_mean uniqueUsers_card)
    have fl: "flags_only (crowdsourced_reports s) (crowdsourced_reports ?s')"
      by (rule consensus_loop_flags_only)
    have r: "i < length (crowdsourced_reports ?s') \<and>
             crowdsourced_reports ?s' ! i = r\<lparr>is_verified := True\<rparr>"
      if "(i, r) \<in> set fr" for i r
    proof -
      from that have "(i, r) \<in> set ?w" by (simp add: fr group_of_def)
      then have i: "i < length (crowdsourced_reports s)" and r: "r = crowdsourced_reports s ! i"
        by (simp_all add: window_mem)
      have "i \<in> fst ` set fr" using that by force
      then have "is_verified (crowdsourced_reports ?s' ! i)"
        using consensus_loop_marks [OF assms(2) u f _ i] by simp
      then show ?thesis using fl i r by (auto simp: flags_only_def)
    qed
    note v r
  }
  then show ?thesis using fr run by auto
qed

lemma window_stC:
  "window env0 ''s1'' (crowdsourced_reports stC) = [(0, rC ''u1'' 0.5), (1, rC ''u2'' 0.6)]"
  by (simp add: window_def stC_def st0_def rC_def env0_def cutoffDate_def upt_rec)

lemma groups_stC:
  "groupByFuelType (window env0 ''s1'' (crowdsourced_reports stC)) [] =
     Inr [(''Diesel'', [(0, rC ''u1'' 0.5), (1, rC ''u2'' 0.6)])]"
  by (simp add: window_stC) (simp add: rC_def inherited_def)

text \<open>Scenario C of the specification.\<close>

lemma scenario_C:
  "\<exists>s'. run_consensus env0 ''s1'' stC = Inr s' \<and>
     verified_fuel_data s' (''s1'', ''Diesel'') =
       Some \<lparr> is_available = True, confidence_score = 0.75, verified_by_count = 2,
              last_verified_at = 1004 \<rparr> \<and>
     crowdsourced_reports s' ! 0 = (rC ''u1'' 0.5)\<lparr>is_verified := True\<rparr> \<and>
     crowdsourced_reports s' ! 1 = (rC ''u2'' 0.6)\<lparr>is_verified := True\<rparr>"
proof -
  let ?fr = "[(0::nat, rC ''u1'' 0.5), (1, rC ''u2'' 0.6)]"
  have c: "card (submitters ?fr) = 2" by (simp add: submitters_def rC_def)
  have m: "mean_score ?fr = 0.55" by (simp add: mean_score_def rC_def or0_def)
  have t: "t_verify env0 ''Diesel'' = 1004" by (simp add: env0_def)
  have c2: "2 \<le> card (submitters ?fr)" unfolding c by simp
  have "(''Diesel'', ?fr) \<in> set [(''Diesel'', ?fr)]" by simp
  from consensus_publishes_group [OF groups_stC this c2] show ?thesis
    unfolding c m t by auto
qed

section \<open>The handler\<close>

lemma get_or_create_trust_frame [simp]:
  "fuel_stations (snd (get_or_create_trust uid s)) = fuel_stations s"
  "crowdsourced_reports (snd (get_or_create_trust uid s)) = crowdsourced_reports s"
  "verified_fuel_data (snd (get_or_create_trust uid s)) = verified_fuel_data s"
  by (simp_all add: get_or_create_trust_def split: option.splits)

lemma with_submission_frame [simp]:
  "fuel_stations (with_submission env s sid ft uid ulat ulon slat slon) = fuel_stations s"
  "verified_fuel_data (with_submission env s sid ft uid ulat ulon slat slon) = verified_fuel_data s"
  "crowdsourced_reports (with_submission env s sid ft uid ulat ulon slat slon) =
     crowdsourced_reports s @ [submitted_row env s sid ft uid ulat ulon slat slon]"
  "user_trust_scores (with_submission env s sid ft uid ulat ulon slat slon) =
     user_trust_scores (snd (get_or_create_trust uid s))"
  by (simp_all add: with_submission_def)

lemma process_submission_found:
  assumes "station_coords (fuel_stations s sid) = Some (slat, slon)"
  shows "process_submission env s sid ft uid ulat ulon =
    (case run_consensus env sid (with_submission env s sid ft uid ulat ulon slat slon) of
       Inl e \<Rightarrow> (\<lparr> status = 500, body = Exception e \<rparr>,
                 with_submission env s sid ft uid ulat ulon slat slon)
     | Inr s3 \<Rightarrow>
         (\<lparr> status = 200,
            body = Submitted (length (crowdsourced_reports s))
                     (score_submission env (fst (get_or_create_trust uid s))
                        (to_number ulat) (to_number ulon) (Some slat) (Some slon)) \<rparr>,
          s3))"
proof -
  obtain trust s1 where g: "get_or_create_trust uid s = (trust, s1)" by force
  have r: "crowdsourced_reports s1 = crowdsourced_reports s"
    using get_or_create_trust_frame(2) [of uid s] g by simp
  show ?thesis
    using assms g
    by (simp add: process_submission_def with_submission_def submitted_row_def Let_def r
             split: sum.splits)
qed

lemma process_submission_store:
  assumes "station_coords (fuel_stations s sid) = Some (slat, slon)"
  shows "snd (process_submission env s sid ft uid ulat ulon) =
         after_consensus env sid (with_submission env s sid ft uid ulat ulon slat slon)"
  by (simp add: process_submission_found [OF assms] after_consensus_def split: sum.splits)

lemma station_coords_None: "station_coords st = None \<longleftrightarrow> station_unusable st"
  by (auto simp: station_coords_def station_unusable_def falsy_number_def split: option.splits)

lemma serve_store_cases:
  obtains (same) "snd (serve env s req) = s"
  | (submitted) r sid ft uid ulat ulon slat slon where
      "req = Body ''submit_report'' (Some r)"
      "req_station_id r = Some sid" "req_fuel_type r = Some ft"
      "req_anonymous_user_id r = Some uid" "req_user_lat r = ulat"
      "req_user_lon r = ulon"
      "station_coords (fuel_stations s sid) = Some (slat, slon)"
      "serve env s req = process_submission env s sid ft uid ulat ulon"
      "snd (serve env s req) =
         after_consensus env sid (with_submission env s sid ft uid ulat ulon slat slon)"
proof (cases req)
  case OPTIONS
  then show ?thesis using same by (simp add: serve_def)
next
  case BadJson
  then show ?thesis using same by (simp add: serve_def)
next
  case (Body action report)
  show ?thesis
  proof (cases "action = ''submit_report'' \<and> report \<noteq> None")
    case False
    then show ?thesis using same Body by (auto simp: serve_def get_admin_data_def)
  next
    case True
    then obtain r where r: "req = Body ''submit_report'' (Some r)" using Body by auto
    show ?thesis
    proof (cases "missing_required r")
      case True
      then show ?thesis using same r by (simp add: serve_def submit_report_def)
    next
      case False
      define ulat ulon where "ulat = req_user_lat r" and "ulon = req_user_lon r"
      from submit_report_present [OF False, of env s] obtain sid ft uid where
        f: "req_station_id r = Some sid" "req_fuel_type r = Some ft"
           "req_anonymous_user_id r = Some uid" "req_user_lat r = ulat"
           "req_user_lon r = ulon"
        and p: "submit_report env s r = process_submission env s sid ft uid ulat ulon"
        unfolding ulat_def ulon_def by blast
      have sv: "serve env s req = process_submission env s sid ft uid ulat ulon"
        using r p by (simp add: serve_def)
      show ?thesis
      proof (cases "station_coords (fuel_stations s sid)")
        case None
        then have "station_unusable (fuel_stations s sid)" by (simp add: station_coords_None)
        then show ?thesis using same sv by (simp add: process_submission_unusable)
      next
        case (Some c)
        obtain slat slon where c: "c = (slat, slon)" by (cases c)
        show ?thesis
          using submitted [OF r f Some [unfolded c] sv] sv
                process_submission_store [OF Some [unfolded c]]
          by simp
      qed
    qed
  qed
qed

text \<open>
  Claim C3. After any request, an entry of the Verified Fuel data for a station and a
  fuel type is what it was before the request whenever that station's windowed,
  non-rejected reports of that fuel type come from fewer than two distinct submitters:
  no consensus run creates or updates an entry for such a group, however many reports a
  single user has submitted.
\<close>

theorem no_consensus_below_two_submitters:
  assumes "card (submitters (group_of ft (window env st
             (crowdsourced_reports (snd (serve env s req)))))) < 2"
  shows "verified_fuel_data (snd (serve env s req)) (st, ft) = verified_fuel_data s (st, ft)"
proof (cases rule: serve_store_cases [where env = env and s = s and req = req])
  case same
  then show ?thesis by simp
next
  case (submitted r sid ft' uid ulat ulon slat slon)
  let ?s2 = "with_submission env s sid ft' uid ulat ulon slat slon"
  have fl: "flags_only (crowdsourced_reports ?s2) (crowdsourced_reports (snd (serve env s req)))"
    unfolding submitted(9) by (rule after_consensus_flags_only)
  show ?thesis
  proof (rule ccontr)
    assume "verified_fuel_data (snd (serve env s req)) (st, ft) \<noteq> verified_fuel_data s (st, ft)"
    then have "verified_fuel_data (after_consensus env sid ?s2) (st, ft) \<noteq>
               verified_fuel_data ?s2 (st, ft)"
      by (simp add: submitted(9))
    from after_consensus_changes [OF this]
    have "st = sid" "2 \<le> card (submitters (group_of ft (window env sid (crowdsourced_reports ?s2))))"
      by simp_all
    then show False
      using assms submitters_flags_only [OF fl] by simp
  qed
qed

lemma submitted_row_fields [simp]:
  "station_id (submitted_row env s sid ft uid ulat ulon slat slon) = sid"
  "anonymous_user_id (submitted_row env s sid ft uid ulat ulon slat slon) = uid"
  "fuel_type (submitted_row env s sid ft uid ulat ulon slat slon) = ft"
  "timestamp (submitted_row env s sid ft uid ulat ulon slat slon) = t_insert env"
  "is_verified (submitted_row env s sid ft uid ulat ulon slat slon) = False"
  "is_rejected (submitted_row env s sid ft uid ulat ulon slat slon) \<longleftrightarrow>
     \<not> isValid (location_of env ulat ulon slat slon)"
  by (simp_all add: submitted_row_def new_report_def score_submission_def location_of_def
        Let_def)

lemma submitters_subset:
  "submitters (group_of ft (window env sid rows)) \<subseteq> anonymous_user_id ` set rows"
  by (auto simp: submitters_window)

lemma serve_sub0_stD:
  "snd (serve env0 stD (Body ''submit_report'' (Some sub0))) =
     after_consensus env0 ''s1'' (with_submission env0 stD ''s1'' ''Diesel'' ''u1'' (JNum 1) (JNum 1) 1 1)"
proof -
  have c: "station_coords (fuel_stations stD ''s1'') = Some (1, 1)"
    by (simp add: stD_def st0_def station_coords_def station_unusable_def falsy_number_def)
  have "serve env0 stD (Body ''submit_report'' (Some sub0)) =
        process_submission env0 stD ''s1'' ''Diesel'' ''u1'' (JNum 1) (JNum 1)"
    by (simp add: serve_def submit_report_def missing_required_def falsy_string_def sub0_def)
  then show ?thesis by (simp add: process_submission_store [OF c])
qed

theorem no_consensus_below_two_submitters_witness:
  "card (submitters (group_of ''Diesel'' (window env0 ''s1''
      (crowdsourced_reports (snd (serve env0 stD (Body ''submit_report'' (Some sub0)))))))) < 2 \<and>
   verified_fuel_data (snd (serve env0 stD (Body ''submit_report'' (Some sub0))))
      (''s1'', ''Diesel'') = None"
proof -
  let ?s' = "snd (serve env0 stD (Body ''submit_report'' (Some sub0)))"
  let ?s2 = "with_submission env0 stD ''s1'' ''Diesel'' ''u1'' (JNum 1) (JNum 1) 1 1"
  have "submitters (group_of ''Diesel'' (window env0 ''s1'' (crowdsourced_reports ?s')))
        = submitters (group_of ''Diesel'' (window env0 ''s1'' (crowdsourced_reports ?s2)))"
    unfolding serve_sub0_stD by (rule submitters_flags_only [OF after_consensus_flags_only])
  also have "\<dots> \<subseteq> anonymous_user_id ` set (crowdsourced_reports ?s2)"
    by (rule submitters_subset)
  also have "\<dots> = {''u1''}"
    by (simp add: stD_def rC_def)
  finally have "card (submitters (group_of ''Diesel'' (window env0 ''s1''
      (crowdsourced_reports ?s')))) \<le> card {''u1''}"
    by (intro card_mono) simp_all
  then have h: "card (submitters (group_of ''Diesel'' (window env0 ''s1''
      (crowdsourced_reports ?s')))) < 2" by simp
  have "verified_fuel_data ?s' (''s1'', ''Diesel'') = verified_fuel_data stD (''s1'', ''Diesel'')"
    by (rule no_consensus_below_two_submitters [OF h])
  then have "verified_fuel_data ?s' (''s1'', ''Diesel'') = None"
    by (simp add: stD_def st0_def)
  with h show ?thesis by blast
qed

section \<open>Scoring\<close>

lemma calculateTimeDecay_range:
  "0 \<le> calculateTimeDecay now ts"
  "ts \<le> now \<Longrightarrow> calculateTimeDecay now ts \<le> 1"
proof -
  show "0 \<le> calculateTimeDecay now ts" by (simp add: calculateTimeDecay_def)
  assume "ts \<le> now"
  then have a: "0 \<le> ageHours now ts" by (simp add: ageHours_def)
  have "(1 / 2 :: real) powr (ageHours now ts / 24) \<le> (1 / 2) powr 0"
    using a by (intro powr_mono') simp_all
  then show "calculateTimeDecay now ts \<le> 1" by (simp add: calculateTimeDecay_def)
qed

lemma calculateLocationFactor_range:
  "factor (calculateLocationFactor err ulat ulon slat slon) = Some l \<Longrightarrow> 0 \<le> l \<and> l \<le> 1"
  by (auto simp: calculateLocationFactor_def Let_def split: option.splits if_splits)

lemma isValid_iff:
  "isValid (calculateLocationFactor err ulat ulon slat slon) \<longleftrightarrow>
     (\<forall>d. calculateDistance err ulat ulon slat slon = Some d \<longrightarrow> d \<le> 2)"
  by (auto simp: calculateLocationFactor_def Let_def split: option.splits)

lemma get_or_create_trust_fst:
  "fst (get_or_create_trust uid s) =
     (case user_trust_scores s uid of None \<Rightarrow> 0.5 | Some t \<Rightarrow> t)"
  by (simp add: get_or_create_trust_def split: option.splits)

lemma submitted_row_scores:
  "trust_score_at_submission (submitted_row env s sid ft uid ulat ulon slat slon) =
     Some (fst (get_or_create_trust uid s))"
  "time_decay_factor (submitted_row env s sid ft uid ulat ulon slat slon) =
     Some (calculateTimeDecay (t_now env) (t_submit env))"
  "location_factor (submitted_row env s sid ft uid ulat ulon slat slon) =
     factor (location_of env ulat ulon slat slon)"
  "dve_score (submitted_row env s sid ft uid ulat ulon slat slon) =
     (if \<not> isValid (location_of env ulat ulon slat slon) then Some 0
      else case factor (location_of env ulat ulon slat slon) of
             None \<Rightarrow> None
           | Some l \<Rightarrow> Some (fst (get_or_create_trust uid s) *
                           calculateTimeDecay (t_now env) (t_submit env) * l))"
  by (simp_all add: submitted_row_def new_report_def score_submission_def location_of_def
        Let_def)

lemma serve_submission:
  assumes "\<not> missing_required r" "req_station_id r = Some sid"
    "\<not> station_unusable (fuel_stations s sid)"
  obtains ft uid slat slon where
    "req_fuel_type r = Some ft" "req_anonymous_user_id r = Some uid"
    "station_coords (fuel_stations s sid) = Some (slat, slon)"
    "serve env s (Body ''submit_report'' (Some r)) =
       process_submission env s sid ft uid (req_user_lat r) (req_user_lon r)"
proof -
  from submit_report_present [OF assms(1), of env s] assms(2) obtain ft uid where
    f: "req_fuel_type r = Some ft" "req_anonymous_user_id r = Some uid"
    and p: "submit_report env s r =
              process_submission env s sid ft uid (req_user_lat r) (req_user_lon r)"
    by auto
  from assms(3) obtain slat slon where
    c: "station_coords (fuel_stations s sid) = Some (slat, slon)"
    using station_coords_None [of "fuel_stations s sid"] by fastforce
  have "serve env s (Body ''submit_report'' (Some r)) =
          process_submission env s sid ft uid (req_user_lat r) (req_user_lon r)"
    using p by (simp add: serve_def)
  with f c that show ?thesis by blast
qed

lemma serve_row:
  assumes "station_coords (fuel_stations s sid) = Some (slat, slon)"
    and "serve env s req = process_submission env s sid ft uid ulat ulon"
  shows "length (crowdsourced_reports (snd (serve env s req))) =
           Suc (length (crowdsourced_reports s))"
    and "\<exists>b. crowdsourced_reports (snd (serve env s req)) ! length (crowdsourced_reports s) =
           (submitted_row env s sid ft uid ulat ulon slat slon)\<lparr>is_verified := b\<rparr>"
proof -
  let ?s2 = "with_submission env s sid ft uid ulat ulon slat slon"
  have s': "snd (serve env s req) = after_consensus env sid ?s2"
    by (simp add: assms(2) process_submission_store [OF assms(1)])
  have fl: "flags_only (crowdsourced_reports ?s2) (crowdsourced_reports (snd (serve env s req)))"
    unfolding s' by (rule after_consensus_flags_only)
  then show "length (crowdsourced_reports (snd (serve env s req))) =
           Suc (length (crowdsourced_reports s))"
    by (simp add: flags_only_def)
  have "length (crowdsourced_reports s) < length (crowdsourced_reports ?s2)" by simp
  with fl have "crowdsourced_reports (snd (serve env s req)) ! length (crowdsourced_reports s) =
      (crowdsourced_reports ?s2 ! length (crowdsourced_reports s))
        \<lparr>is_verified := is_verified (crowdsourced_reports (snd (serve env s req)) !
                            length (crowdsourced_reports s))\<rparr>"
    unfolding flags_only_def by blast
  then show "\<exists>b. crowdsourced_reports (snd (serve env s req)) ! length (crowdsourced_reports s) =
           (submitted_row env s sid ft uid ulat ulon slat slon)\<lparr>is_verified := b\<rparr>"
    by auto
qed

text \<open>
  The score of a stored row. A submission with all required fields for a station with
  coordinates is stored as one new row, whose trust score, time decay and location
  factor are the ones computed for the request. A rejected row has the score \<open>0\<close>. A row
  that is not rejected and whose location factor is a number \<open>l\<close> has the product of the
  trust score, the time decay and \<open>l\<close> as its score; a row that is not rejected and whose
  location factor is \<^verbatim>\<open>NaN\<close> has no number as its score. If the submitter's stored trust
  score, if there is one, lies between \<open>0.1\<close> and \<open>1.0\<close>, and the clock has not gone back
  between the two readings of lines 91 and 37, then a score that is a number lies between
  \<open>0\<close> and \<open>1\<close>.
\<close>

lemma persisted_score:
  assumes "\<not> missing_required r" "req_station_id r = Some sid"
    "req_anonymous_user_id r = Some uid"
    "station_coords (fuel_stations s sid) = Some (slat, slon)"
  shows "(let s' = snd (serve env s (Body ''submit_report'' (Some r)));
              n = length (crowdsourced_reports s);
              row = crowdsourced_reports s' ! n;
              t = (case user_trust_scores s uid of None \<Rightarrow> 0.5 | Some t \<Rightarrow> t);
              d = calculateTimeDecay (t_now env) (t_submit env);
              loc = location_of env (req_user_lat r) (req_user_lon r) slat slon
          in length (crowdsourced_reports s') = Suc n \<and>
             trust_score_at_submission row = Some t \<and>
             time_decay_factor row = Some d \<and>
             location_factor row = factor loc \<and>
             (is_rejected row \<longleftrightarrow> \<not> isValid loc) \<and>
             (is_rejected row \<longrightarrow> dve_score row = Some 0) \<and>
             (\<not> is_rejected row \<longrightarrow>
                dve_score row = (case factor loc of None \<Rightarrow> None | Some l \<Rightarrow> Some (t * d * l))) \<and>
             ((\<forall>t. user_trust_scores s uid = Some t \<longrightarrow> 0.1 \<le> t \<and> t \<le> 1.0) \<and>
              t_submit env \<le> t_now env \<longrightarrow>
                (\<forall>v. dve_score row = Some v \<longrightarrow> 0 \<le> v \<and> v \<le> 1)))"
proof -
  have nu: "\<not> station_unusable (fuel_stations s sid)"
    using assms(4) station_coords_None [of "fuel_stations s sid"] by simp
  obtain ft uid' slat' slon' where
    "req_fuel_type r = Some ft"
    and u: "req_anonymous_user_id r = Some uid'"
    and c': "station_coords (fuel_stations s sid) = Some (slat', slon')"
    and sv': "serve env s (Body ''submit_report'' (Some r)) =
             process_submission env s sid ft uid' (req_user_lat r) (req_user_lon r)"
    by (rule serve_submission [OF assms(1,2) nu])
  have "uid' = uid" using u assms(3) by simp
  with sv' have sv: "serve env s (Body ''submit_report'' (Some r)) =
             process_submission env s sid ft uid (req_user_lat r) (req_user_lon r)" by simp
  note c = assms(4)
  let ?ulat = "req_user_lat r" and ?ulon = "req_user_lon r"
  let ?s2 = "with_submission env s sid ft uid ?ulat ?ulon slat slon"
  let ?s' = "snd (serve env s (Body ''submit_report'' (Some r)))"
  let ?n = "length (crowdsourced_reports s)"
  let ?new = "submitted_row env s sid ft uid ?ulat ?ulon slat slon"
  let ?row = "crowdsourced_reports ?s' ! ?n"
  let ?t = "case user_trust_scores s uid of None \<Rightarrow> 0.5 | Some t \<Rightarrow> t"
  let ?d = "calculateTimeDecay (t_now env) (t_submit env)"
  let ?loc = "location_of env ?ulat ?ulon slat slon"
  have s': "?s' = after_consensus env sid ?s2"
    by (simp add: sv process_submission_store [OF c])
  have fl: "flags_only (crowdsourced_reports ?s2) (crowdsourced_reports ?s')"
    unfolding s' by (rule after_consensus_flags_only)
  have len: "length (crowdsourced_reports ?s') = Suc ?n"
    using fl by (simp add: flags_only_def)
  have n: "?n < length (crowdsourced_reports ?s2)" by simp
  have new: "crowdsourced_reports ?s2 ! ?n = ?new" by simp
  note f = flags_only_fields [OF fl n, unfolded new]
  have tr: "trust_score_at_submission ?row = Some ?t"
    using f(7) by (simp add: submitted_row_scores get_or_create_trust_fst)
  have td: "time_decay_factor ?row = Some ?d"
    using f(8) by (simp add: submitted_row_scores)
  have lf: "location_factor ?row = factor ?loc"
    using f(9) by (simp add: submitted_row_scores)
  have rej: "is_rejected ?row \<longleftrightarrow> \<not> isValid ?loc"
    using f(5) by simp
  have dve: "dve_score ?row = (if \<not> isValid ?loc then Some 0
      else case factor ?loc of None \<Rightarrow> None | Some l \<Rightarrow> Some (?t * ?d * l))"
    using f(6) unfolding submitted_row_scores get_or_create_trust_fst by simp
  have p1: "is_rejected ?row \<longrightarrow> dve_score ?row = Some 0"
    using dve rej by simp
  have p2: "\<not> is_rejected ?row \<longrightarrow>
      dve_score ?row = (case factor ?loc of None \<Rightarrow> None | Some l \<Rightarrow> Some (?t * ?d * l))"
    using dve rej by simp
  have p3: "(\<forall>t. user_trust_scores s uid = Some t \<longrightarrow> 0.1 \<le> t \<and> t \<le> 1.0) \<and>
              t_submit env \<le> t_now env \<longrightarrow>
            (\<forall>v. dve_score ?row = Some v \<longrightarrow> 0 \<le> v \<and> v \<le> 1)"
  proof (intro impI allI)
    fix v
    assume h: "(\<forall>t. user_trust_scores s uid = Some t \<longrightarrow> 0.1 \<le> t \<and> t \<le> 1.0) \<and>
              t_submit env \<le> t_now env"
      and v: "dve_score ?row = Some v"
    have t: "0 \<le> ?t \<and> ?t \<le> 1"
      using h by (auto split: option.splits)
    have d: "0 \<le> ?d \<and> ?d \<le> 1" using h calculateTimeDecay_range [where now = "t_now env" and ts = "t_submit env"]
      by simp
    show "0 \<le> v \<and> v \<le> 1"
    proof (cases "isValid ?loc")
      case False
      then show ?thesis using dve v by simp
    next
      case True
      with dve v obtain l where l: "factor ?loc = Some l" and e: "v = ?t * ?d * l"
        by (auto split: option.splits)
      have lr: "0 \<le> l \<and> l \<le> 1"
        using l calculateLocationFactor_range unfolding location_of_def by blast
      have "0 \<le> ?t * ?d * l" using t d lr by simp
      moreover have "?t * ?d \<le> 1" using t d by (simp add: mult_le_one)
      then have "?t * ?d * l \<le> 1" using t d lr by (intro mult_le_one) simp_all
      ultimately show ?thesis using e by simp
    qed
  qed
  show ?thesis
    unfolding Let_def by (intro conjI) (rule len tr td lf rej p1 p2 p3)+
qed

section \<open>Rejected submissions\<close>

lemma mark_verified_append:
  assumes "\<forall>i \<in> fst ` set fr. i < length rows"
  shows "mark_verified fr (rows @ [row]) = mark_verified fr rows @ [row]"
proof (rule nth_equalityI)
  show "length (mark_verified fr (rows @ [row])) = length (mark_verified fr rows @ [row])"
    by simp
next
  fix i assume "i < length (mark_verified fr (rows @ [row]))"
  then have i: "i < Suc (length rows)" by simp
  show "mark_verified fr (rows @ [row]) ! i = (mark_verified fr rows @ [row]) ! i"
  proof (cases "i < length rows")
    case True
    then show ?thesis by (simp add: mark_verified_nth nth_append)
  next
    case False
    with i have e: "i = length rows" by simp
    then have "i \<notin> fst ` set fr" using assms by auto
    then show ?thesis using e by (simp add: mark_verified_nth nth_append)
  qed
qed

lemma publish_append:
  assumes "\<forall>i \<in> fst ` set fr. i < length (crowdsourced_reports s)"
  shows "publish env sid ft fr
           (s\<lparr>user_trust_scores := t, crowdsourced_reports := crowdsourced_reports s @ [row]\<rparr>) =
         (publish env sid ft fr s)\<lparr>user_trust_scores := t,
            crowdsourced_reports := crowdsourced_reports (publish env sid ft fr s) @ [row]\<rparr>"
  by (simp add: publish_def mark_verified_append [OF assms])

lemma consensus_loop_append:
  assumes "\<forall>(k, fr) \<in> set g. \<forall>i \<in> fst ` set fr. i < length (crowdsourced_reports s)"
  shows "consensus_loop env sid g
           (s\<lparr>user_trust_scores := t, crowdsourced_reports := crowdsourced_reports s @ [row]\<rparr>) =
         (consensus_loop env sid g s)\<lparr>user_trust_scores := t,
            crowdsourced_reports := crowdsourced_reports (consensus_loop env sid g s) @ [row]\<rparr>"
  using assms
proof (induction g arbitrary: s)
  case Nil
  then show ?case by simp
next
  case (Cons x g)
  obtain ft fr where x: "x = (ft, fr)" by (cases x)
  let ?s1 = "if 2 \<le> uniqueUsers fr \<and> 0.4 \<le> finalScore fr then publish env sid ft fr s else s"
  have fr: "\<forall>i \<in> fst ` set fr. i < length (crowdsourced_reports s)"
    using Cons.prems x by auto
  have len: "length (crowdsourced_reports ?s1) = length (crowdsourced_reports s)" by simp
  have g: "\<forall>(k, fr) \<in> set g. \<forall>i \<in> fst ` set fr. i < length (crowdsourced_reports ?s1)"
    unfolding len using Cons.prems by auto
  have step: "(if 2 \<le> uniqueUsers fr \<and> 0.4 \<le> finalScore fr
        then publish env sid ft fr
               (s\<lparr>user_trust_scores := t, crowdsourced_reports := crowdsourced_reports s @ [row]\<rparr>)
        else s\<lparr>user_trust_scores := t, crowdsourced_reports := crowdsourced_reports s @ [row]\<rparr>) =
      ?s1\<lparr>user_trust_scores := t, crowdsourced_reports := crowdsourced_reports ?s1 @ [row]\<rparr>"
    using publish_append [OF fr] by simp
  show ?case
    unfolding x consensus_loop_Cons step by (rule Cons.IH [OF g])
qed

lemma get_or_create_trust_snd:
  "snd (get_or_create_trust uid s) =
     s\<lparr>user_trust_scores := user_trust_scores (snd (get_or_create_trust uid s))\<rparr>"
  by (simp add: get_or_create_trust_def split: option.splits)

text \<open>
  The row of a rejected submission is not in the window, so the consensus run that
  follows is the run on the store as it was before, with the row appended.
\<close>

lemma run_consensus_rejected:
  assumes "is_rejected row"
  shows "run_consensus env sid
           (s\<lparr>user_trust_scores := t, crowdsourced_reports := crowdsourced_reports s @ [row]\<rparr>) =
         map_sum id
           (\<lambda>s'. s'\<lparr>user_trust_scores := t,
                     crowdsourced_reports := crowdsourced_reports s' @ [row]\<rparr>)
           (run_consensus env sid s)"
proof -
  let ?w = "window env sid (crowdsourced_reports s)"
  have w: "window env sid (crowdsourced_reports s @ [row]) = ?w"
    using assms by (simp add: window_append)
  show ?thesis
  proof (cases "groupByFuelType ?w []")
    case (Inl e)
    then show ?thesis by (simp add: run_consensus_def w Let_def)
  next
    case (Inr g)
    have "i < length (crowdsourced_reports s)" if "(k, fr) \<in> set g" "i \<in> fst ` set fr"
      for k fr i
    proof -
      from that(2) obtain r where "(i, r) \<in> set fr" by auto
      then have "(i, r) \<in> set ?w"
        using groups_of_window [OF Inr, of k fr] that(1) by (simp add: group_of_def)
      then show ?thesis by (simp add: window_mem)
    qed
    then have "\<forall>(k, fr) \<in> set g. \<forall>i \<in> fst ` set fr. i < length (crowdsourced_reports s)"
      by blast
    from consensus_loop_append [OF this] Inr show ?thesis
      by (simp add: run_consensus_def w Let_def)
  qed
qed

lemma after_consensus_rejected:
  assumes "is_rejected row"
  shows "after_consensus env sid
           (s\<lparr>user_trust_scores := t, crowdsourced_reports := crowdsourced_reports s @ [row]\<rparr>) =
         (after_consensus env sid s)\<lparr>user_trust_scores := t,
            crowdsourced_reports := crowdsourced_reports (after_consensus env sid s) @ [row]\<rparr>"
  by (cases "run_consensus env sid s")
     (simp_all add: after_consensus_def run_consensus_rejected [OF assms])

lemma serve_rejected_store:
  assumes "station_coords (fuel_stations s sid) = Some (slat, slon)"
    and "serve env s req = process_submission env s sid ft uid ulat ulon"
    and "\<not> isValid (location_of env ulat ulon slat slon)"
  shows "snd (serve env s req) =
    (after_consensus env sid s)\<lparr>
       user_trust_scores := user_trust_scores (snd (get_or_create_trust uid s)),
       crowdsourced_reports := crowdsourced_reports (after_consensus env sid s) @
         [submitted_row env s sid ft uid ulat ulon slat slon]\<rparr>"
proof -
  let ?row = "submitted_row env s sid ft uid ulat ulon slat slon"
  have rej: "is_rejected ?row" using assms(3) by simp
  have ws: "with_submission env s sid ft uid ulat ulon slat slon =
        s\<lparr>user_trust_scores := user_trust_scores (snd (get_or_create_trust uid s)),
          crowdsourced_reports := crowdsourced_reports s @ [?row]\<rparr>"
    unfolding with_submission_def by (subst get_or_create_trust_snd) simp
  show ?thesis
    unfolding assms(2) process_submission_store [OF assms(1)] ws
    by (rule after_consensus_rejected [OF rej])
qed

section \<open>The sample requests, step by step\<close>

lemma sub0_serve:
  "serve env s (Body ''submit_report'' (Some sub0)) =
     process_submission env s ''s1'' ''Diesel'' ''u1'' (JNum 1) (JNum 1)"
  "serve env s (Body ''submit_report'' (Some sub_u2)) =
     process_submission env s ''s1'' ''Diesel'' ''u2'' (JNum 1) (JNum 1)"
  "serve env s (Body ''submit_report'' (Some sub_far)) =
     process_submission env s ''s1'' ''Diesel'' ''u3'' (JNum 0) (JNum 1)"
  "serve env s (Body ''submit_report'' (Some sub_ctor)) =
     process_submission env s ''s1'' ''constructor'' ''u1'' (JNum 1) (JNum 1)"
  "serve env s (Body ''submit_report'' (Some sub_u3)) =
     process_submission env s ''s1'' ''Diesel'' ''u3'' (JNum 1) (JNum 1)"
  "serve env s (Body ''submit_report'' (Some sub_null)) =
     process_submission env s ''s1'' ''Diesel'' ''u1'' JNull (JNum 1)"
  "serve env s (Body ''submit_report'' (Some sub_antipode)) =
     process_submission env s ''s4'' ''Diesel'' ''u1'' (JNum (- 14.7)) (JNum (- 179))"
  by (simp_all add: serve_def submit_report_def missing_required_def falsy_string_def
        sub0_def sub_u2_def sub_far_def sub_ctor_def sub_u3_def sub_null_def sub_antipode_def)

lemma st0_coords:
  "station_coords (fuel_stations st0 ''s1'') = Some (1, 1)"
  by (simp add: st0_def station_coords_def station_unusable_def falsy_number_def)

lemma st0_coords_s4:
  "station_coords (fuel_stations st0 ''s4'') = Some (14.7, 1)"
  by (simp add: st0_def station_coords_def station_unusable_def falsy_number_def)

lemma fixture_stations [simp]:
  "fuel_stations stA1 = fuel_stations st0" "fuel_stations stA2 = fuel_stations st0"
  "fuel_stations stX1 = fuel_stations st0" "fuel_stations stX2 = fuel_stations st0"
  "fuel_stations stX3 = fuel_stations st0"
  by (simp_all add: stA1_def stA2_def stX1_def stX2_def stX3_def)

lemma to_number_simps [simp]:
  "to_number (JNum x) = Some x" "to_number JNull = Some 0" "to_number JAbsent = None"
  by (simp_all add: to_number_def)

lemma to_column_simps [simp]:
  "to_column (JNum x) = Some x" "to_column JNull = None" "to_column JAbsent = None"
  by (simp_all add: to_column_def)

lemma calculateTimeDecay_now [simp]: "calculateTimeDecay t t = 1"
  by (simp add: calculateTimeDecay_def ageHours_def)

lemma submitted_row_env0:
  "user_trust_scores s uid = None \<Longrightarrow>
   submitted_row env0 s ''s1'' ft uid (JNum 1) (JNum 1) 1 1 = (rC uid 0.5)\<lparr>fuel_type := ft\<rparr>"
  by (simp add: submitted_row_def new_report_def score_submission_def
        calculateLocationFactor_def get_or_create_trust_def rC_def env0_def)

lemma score_env0:
  "score_submission env0 (1 / 2) (Some 1) (Some 1) (Some 1) (Some 1) =
     \<lparr> score = Some 0.5, trustScore = 0.5, timeDecay = 1, locationFactor = Some 1,
       isRejected = False, rejectionReason = None \<rparr>"
  by (simp add: score_submission_def calculateLocationFactor_def env0_def)

lemma cutoff_env0 [simp]: "cutoffDate env0 \<le> 1002"
  by (simp add: cutoffDate_def env0_def)

lemma step_A1:
  "serve env0 st0 (Body ''submit_report'' (Some sub0)) =
     (\<lparr> status = 200,
        body = Submitted 0 \<lparr> score = Some 0.5, trustScore = 0.5, timeDecay = 1,
                 locationFactor = Some 1,
                 isRejected = False, rejectionReason = None \<rparr> \<rparr>, stA1)"
proof -
  have ws: "with_submission env0 st0 ''s1'' ''Diesel'' ''u1'' (JNum 1) (JNum 1) 1 1 = stA1"
    by (simp add: with_submission_def submitted_row_env0 get_or_create_trust_def
          st0_def stA1_def rC_def)
  have rc: "run_consensus env0 ''s1'' stA1 = Inr stA1"
    by (simp add: run_consensus_def window_def stA1_def)
  have t: "fst (get_or_create_trust ''u1'' st0) = 1 / 2"
    by (simp add: get_or_create_trust_def st0_def)
  have n: "length (crowdsourced_reports st0) = 0" by (simp add: st0_def)
  show ?thesis
    unfolding sub0_serve process_submission_found [OF st0_coords] ws rc t n to_number_simps score_env0
    by simp
qed

lemma Diesel_not_inherited [simp]: "''Diesel'' \<notin> set inherited"
  by (simp add: inherited_def)

lemma constructor_inherited [simp]: "''constructor'' \<in> set inherited"
  by (simp add: inherited_def)

lemma rC_simps [simp]:
  "station_id (rC uid v) = ''s1''" "anonymous_user_id (rC uid v) = uid"
  "fuel_type (rC uid v) = ''Diesel''" "timestamp (rC uid v) = 1002"
  "is_rejected (rC uid v) = False" "dve_score (rC uid v) = Some v"
  by (simp_all add: rC_def)

lemma step_A2:
  "serve env0 stA1 (Body ''submit_report'' (Some sub_u2)) =
     (\<lparr> status = 200,
        body = Submitted 1 \<lparr> score = Some 0.5, trustScore = 0.5, timeDecay = 1,
                 locationFactor = Some 1,
                 isRejected = False, rejectionReason = None \<rparr> \<rparr>, stA2)"
proof -
  let ?mid = "stA1\<lparr>user_trust_scores := [''u1'' \<mapsto> 0.5, ''u2'' \<mapsto> 0.5],
              crowdsourced_reports := [rC ''u1'' 0.5, rC ''u2'' 0.5]\<rparr>"
  have c: "station_coords (fuel_stations stA1 ''s1'') = Some (1, 1)"
    by (simp add: st0_coords)
  have ws: "with_submission env0 stA1 ''s1'' ''Diesel'' ''u2'' (JNum 1) (JNum 1) 1 1 = ?mid"
    by (simp add: with_submission_def submitted_row_env0 get_or_create_trust_def
          stA1_def rC_def)
  have w: "window env0 ''s1'' (crowdsourced_reports ?mid) =
             [(0, rC ''u1'' 0.5), (1, rC ''u2'' 0.5)]"
    by (simp add: window_def upt_rec)
  have g: "groupByFuelType [(0, rC ''u1'' 0.5), (1, rC ''u2'' 0.5)] [] =
             Inr [(''Diesel'', [(0, rC ''u1'' 0.5), (1, rC ''u2'' 0.5)])]"
    by simp
  have u: "uniqueUsers [(0, rC ''u1'' 0.5), (1, rC ''u2'' 0.5)] = 2"
    by (simp add: uniqueUsers_def)
  have f: "finalScore [(0, rC ''u1'' 0.5), (1, rC ''u2'' 0.5)] = 0.7"
    by (simp add: finalScore_def avgScore_def or0_def)
  have rc: "run_consensus env0 ''s1'' ?mid = Inr stA2"
    unfolding run_consensus_def w Let_def g sum.case consensus_loop.simps publish_def u f
    by (simp add: mark_verified_def stA1_def stA2_def st0_def env0_def)
  have t: "fst (get_or_create_trust ''u2'' stA1) = 1 / 2"
    by (simp add: get_or_create_trust_def stA1_def)
  have n: "length (crowdsourced_reports stA1) = 1" by (simp add: stA1_def)
  show ?thesis
    unfolding sub0_serve process_submission_found [OF c] ws rc t n to_number_simps score_env0
    by simp
qed

lemma with_submission_alt:
  "with_submission env s sid ft uid ulat ulon slat slon =
     s\<lparr>user_trust_scores := user_trust_scores (snd (get_or_create_trust uid s)),
       crowdsourced_reports := crowdsourced_reports s @
         [submitted_row env s sid ft uid ulat ulon slat slon]\<rparr>"
  unfolding with_submission_def by (subst get_or_create_trust_snd) simp

lemma dist_sub_far:
  "calculateDistance 0 (Some 0) (Some 1) (Some 1) (Some 1) = Some (6371 * pi / 180)"
  "2 < 6371 * pi / 180"
proof -
  have "calculateDistance 0 (Some 0) (Some 1) (Some (0 + 1)) (Some 1) =
        Some (6371 * (1 * (pi / 180)))"
    by (rule calculateDistance_meridian) simp_all
  then show "calculateDistance 0 (Some 0) (Some 1) (Some 1) (Some 1) = Some (6371 * pi / 180)"
    by simp
  show "2 < 6371 * pi / 180" using pi_ge_two by simp
qed

text \<open>
  A latitude \<open>0\<close> and a latitude \<^verbatim>\<open>null\<close> are the same number to the scoring: the
  submitter is one degree of latitude south of station \<open>s1\<close>.
\<close>

lemma location_of_far:
  assumes "a_error env = 0" "to_number ulat = Some 0"
  shows "location_of env ulat (JNum 1) 1 1 =
           \<lparr> factor = Some 0, distance = Some (6371 * pi / 180), isValid = False \<rparr>"
  unfolding location_of_def assms to_number_simps
  using calculateLocationFactor_number(2) [OF dist_sub_far(1)] dist_sub_far(2) by simp

lemma sub_far_invalid:
  "\<not> isValid (location_of env0 (JNum 0) (JNum 1) 1 1)"
  "\<not> isValid (location_of env1 (JNum 0) (JNum 1) 1 1)"
  "\<not> isValid (location_of env0 JNull (JNum 1) 1 1)"
  by (simp_all add: location_of_far env0_def env1_def)

lemma cutoff_env1 [simp]: "cutoffDate env1 \<le> 1002"
  by (simp add: cutoffDate_def env1_def)

lemma run_consensus_stA2:
  "run_consensus env1 ''s1'' stA2 =
     Inr (stA2\<lparr>verified_fuel_data := [(''s1'', ''Diesel'') \<mapsto>
                 \<lparr> is_available = True, confidence_score = 0.7, verified_by_count = 2,
                   last_verified_at = 5004 \<rparr>]\<rparr>)"
proof -
  let ?r1 = "(rC ''u1'' 0.5)\<lparr>is_verified := True\<rparr>"
  let ?r2 = "(rC ''u2'' 0.5)\<lparr>is_verified := True\<rparr>"
  have w: "window env1 ''s1'' (crowdsourced_reports stA2) = [(0, ?r1), (1, ?r2)]"
    by (simp add: window_def upt_rec stA2_def)
  have g: "groupByFuelType [(0, ?r1), (1, ?r2)] [] = Inr [(''Diesel'', [(0, ?r1), (1, ?r2)])]"
    by simp
  have u: "uniqueUsers [(0, ?r1), (1, ?r2)] = 2"
    by (simp add: uniqueUsers_def)
  have f: "finalScore [(0, ?r1), (1, ?r2)] = 0.7"
    by (simp add: finalScore_def avgScore_def or0_def)
  show ?thesis
    unfolding run_consensus_def w Let_def g sum.case consensus_loop.simps publish_def u f
    by (simp add: mark_verified_def stA2_def st0_def env1_def)
qed

lemma run_consensus_stX2: "run_consensus env1 ''s1'' stX2 = Inl TypeError"
proof -
  let ?r1 = "(rC ''u1'' 0.5)\<lparr>fuel_type := ''constructor''\<rparr>"
  have w: "window env1 ''s1'' (crowdsourced_reports stX2) = [(0, ?r1), (1, rC ''u2'' 0.5)]"
    by (simp add: window_def upt_rec stX2_def)
  show ?thesis
    unfolding run_consensus_def w Let_def by simp
qed

lemma step_X1:
  "serve env0 st0 (Body ''submit_report'' (Some sub_ctor)) =
     (\<lparr> status = 200,
        body = Submitted 0 \<lparr> score = Some 0.5, trustScore = 0.5, timeDecay = 1,
                 locationFactor = Some 1,
                 isRejected = False, rejectionReason = None \<rparr> \<rparr>, stX1)"
proof -
  have ws: "with_submission env0 st0 ''s1'' ''constructor'' ''u1'' (JNum 1) (JNum 1) 1 1 = stX1"
    by (simp add: with_submission_def submitted_row_env0 get_or_create_trust_def
          st0_def stX1_def)
  have rc: "run_consensus env0 ''s1'' stX1 = Inr stX1"
    by (simp add: run_consensus_def window_def stX1_def)
  have t: "fst (get_or_create_trust ''u1'' st0) = 1 / 2"
    by (simp add: get_or_create_trust_def st0_def)
  have n: "length (crowdsourced_reports st0) = 0" by (simp add: st0_def)
  show ?thesis
    unfolding sub0_serve process_submission_found [OF st0_coords] ws rc t n to_number_simps score_env0
    by simp
qed

lemma step_X2:
  "serve env0 stX1 (Body ''submit_report'' (Some sub_u2)) =
     (\<lparr> status = 500, body = Exception TypeError \<rparr>, stX2)"
proof -
  let ?r1 = "(rC ''u1'' 0.5)\<lparr>fuel_type := ''constructor''\<rparr>"
  have c: "station_coords (fuel_stations stX1 ''s1'') = Some (1, 1)"
    by (simp add: st0_coords)
  have ws: "with_submission env0 stX1 ''s1'' ''Diesel'' ''u2'' (JNum 1) (JNum 1) 1 1 = stX2"
    by (simp add: with_submission_def submitted_row_env0 get_or_create_trust_def
          stX1_def stX2_def rC_def)
  have w: "window env0 ''s1'' (crowdsourced_reports stX2) = [(0, ?r1), (1, rC ''u2'' 0.5)]"
    by (simp add: window_def upt_rec stX2_def)
  have rc: "run_consensus env0 ''s1'' stX2 = Inl TypeError"
    unfolding run_consensus_def w Let_def by simp
  show ?thesis
    unfolding sub0_serve process_submission_found [OF c] ws rc by simp
qed

section \<open>What a rejected submission changes\<close>

lemma station_coords_Some:
  "fuel_stations s sid = Some st \<Longrightarrow> lat st = Some slat \<Longrightarrow> lon st = Some slon \<Longrightarrow>
   slat \<noteq> 0 \<Longrightarrow> slon \<noteq> 0 \<Longrightarrow> station_coords (fuel_stations s sid) = Some (slat, slon)"
  by (simp add: station_coords_def station_unusable_def falsy_number_def)

lemma serve_fields:
  assumes "\<not> missing_required r"
    and "req_station_id r = Some sid" "req_fuel_type r = Some ft"
    and "req_anonymous_user_id r = Some uid"
    and "req_user_lat r = ulat" "req_user_lon r = ulon"
  shows "serve env s (Body ''submit_report'' (Some r)) =
         process_submission env s sid ft uid ulat ulon"
  using assms by (simp add: serve_def submit_report_def)

text \<open>
  Claim C8, as amended. After a rejected submission the consensus run still takes
  place. It is the run the station's reports would get without the submission: the
  store after the request has the Verified Fuel Entries and the reports, with their
  verified flags, of the store after a consensus run on the store before the request,
  and in addition the rejected row, which is not marked verified. Entries of other
  stations are as before.
\<close>

theorem rejected_submission_runs_consensus:
  assumes "\<not> missing_required r"
    and "req_station_id r = Some sid" "req_fuel_type r = Some ft"
    and "req_anonymous_user_id r = Some uid"
    and "req_user_lat r = ulat" "req_user_lon r = ulon"
    and "fuel_stations s sid = Some st" "lat st = Some slat" "lon st = Some slon"
    and "slat \<noteq> 0" "slon \<noteq> 0"
    and "\<not> isValid (calculateLocationFactor (a_error env) (to_number ulat) (to_number ulon)
                 (Some slat) (Some slon))"
  shows "(let s' = snd (serve env s (Body ''submit_report'' (Some r)));
              c = after_consensus env sid s;
              row = submitted_row env s sid ft uid ulat ulon slat slon
          in verified_fuel_data s' = verified_fuel_data c \<and>
             crowdsourced_reports s' = crowdsourced_reports c @ [row] \<and>
             is_rejected row \<and> \<not> is_verified row \<and>
             (\<forall>st' ft'. st' \<noteq> sid \<longrightarrow>
                verified_fuel_data s' (st', ft') = verified_fuel_data s (st', ft')))"
proof -
  have c: "station_coords (fuel_stations s sid) = Some (slat, slon)"
    using assms(7-11) by (rule station_coords_Some)
  have sv: "serve env s (Body ''submit_report'' (Some r)) =
            process_submission env s sid ft uid ulat ulon"
    using assms(1-6) by (rule serve_fields)
  have d: "\<not> isValid (location_of env ulat ulon slat slon)"
    using assms(12) by (simp add: location_of_def)
  have other: "verified_fuel_data (after_consensus env sid s) (st', ft') =
               verified_fuel_data s (st', ft')" if "st' \<noteq> sid" for st' ft'
    using after_consensus_changes [of env sid s st' ft'] that by blast
  show ?thesis
    unfolding Let_def serve_rejected_store [OF c sv d]
    using d other by simp
qed

theorem rejected_submission_runs_consensus_witness:
  "verified_fuel_data (snd (serve env1 stA2 (Body ''submit_report'' (Some sub_far)))) =
     verified_fuel_data (after_consensus env1 ''s1'' stA2) \<and>
   crowdsourced_reports (snd (serve env1 stA2 (Body ''submit_report'' (Some sub_far)))) =
     crowdsourced_reports (after_consensus env1 ''s1'' stA2) @
       [submitted_row env1 stA2 ''s1'' ''Diesel'' ''u3'' (JNum 0) (JNum 1) 1 1] \<and>
   is_rejected (submitted_row env1 stA2 ''s1'' ''Diesel'' ''u3'' (JNum 0) (JNum 1) 1 1) \<and>
   verified_fuel_data (snd (serve env1 stA2 (Body ''submit_report'' (Some sub_far))))
     (''s3'', ''Diesel'') = None"
proof -
  have h1: "\<not> missing_required sub_far"
    by (simp add: missing_required_def falsy_string_def sub_far_def sub0_def)
  have h2: "req_station_id sub_far = Some ''s1''" "req_fuel_type sub_far = Some ''Diesel''"
    "req_anonymous_user_id sub_far = Some ''u3''"
    "req_user_lat sub_far = JNum 0" "req_user_lon sub_far = JNum 1"
    by (simp_all add: sub_far_def sub0_def)
  have h3: "fuel_stations stA2 ''s1'' = Some \<lparr> lat = Some 1, lon = Some 1 \<rparr>"
    by (simp add: st0_def)
  have h4: "\<not> isValid (calculateLocationFactor (a_error env1) (to_number (JNum 0))
                 (to_number (JNum 1)) (Some 1) (Some 1))"
    using sub_far_invalid(2) by (simp add: location_of_def)
  have v: "verified_fuel_data stA2 (''s3'', ''Diesel'') = None"
    by (simp add: stA2_def st0_def)
  have h5: "lat \<lparr> lat = Some 1, lon = Some (1::real) \<rparr> = Some (1::real)"
    "lon \<lparr> lat = Some (1::real), lon = Some 1 \<rparr> = Some (1::real)" "(1::real) \<noteq> 0"
    by simp_all
  have ne: "''s3'' \<noteq> ''s1''" by simp
  note rejected_submission_runs_consensus
         [OF h1 h2 h3 h5(1) h5(2) h5(3) h5(3) h4, unfolded Let_def]
  with ne v show ?thesis by metis
qed

text \<open>
  Claim C8 as stated fails. Two users report Diesel at station \<open>s1\<close>, which gives the store
  \<open>stA2\<close> with a Verified Fuel Entry last verified at time 1004. A third user's
  submission from about 111 km away is rejected, and the entry is written again, with
  the last-verified time 5004.
\<close>

theorem rejected_submission_changes_entry:
  "snd (serve env0 (snd (serve env0 st0 (Body ''submit_report'' (Some sub0))))
          (Body ''submit_report'' (Some sub_u2))) = stA2 \<and>
   is_rejected (last (crowdsourced_reports
      (snd (serve env1 stA2 (Body ''submit_report'' (Some sub_far)))))) \<and>
   verified_fuel_data (snd (serve env1 stA2 (Body ''submit_report'' (Some sub_far))))
      (''s1'', ''Diesel'') \<noteq> verified_fuel_data stA2 (''s1'', ''Diesel'')"
proof -
  have c: "station_coords (fuel_stations stA2 ''s1'') = Some (1, 1)"
    by (simp add: st0_coords)
  have a: "after_consensus env1 ''s1'' stA2 =
     stA2\<lparr>verified_fuel_data := [(''s1'', ''Diesel'') \<mapsto>
                 \<lparr> is_available = True, confidence_score = 0.7, verified_by_count = 2,
                   last_verified_at = 5004 \<rparr>]\<rparr>"
    by (simp add: after_consensus_def run_consensus_stA2)
  have "snd (serve env0 (snd (serve env0 st0 (Body ''submit_report'' (Some sub0))))
          (Body ''submit_report'' (Some sub_u2))) = stA2"
    by (simp add: step_A1 step_A2)
  moreover have "is_rejected (last (crowdsourced_reports
      (snd (serve env1 stA2 (Body ''submit_report'' (Some sub_far))))))"
    unfolding serve_rejected_store [OF c sub0_serve(3) sub_far_invalid(2)]
    using sub_far_invalid(2) by simp
  moreover have "verified_fuel_data (snd (serve env1 stA2 (Body ''submit_report'' (Some sub_far))))
      (''s1'', ''Diesel'') \<noteq> verified_fuel_data stA2 (''s1'', ''Diesel'')"
    unfolding serve_rejected_store [OF c sub0_serve(3) sub_far_invalid(2)] a
    by (simp add: stA2_def)
  ultimately show ?thesis by blast
qed

section \<open>The answer to a rejected submission\<close>

lemma digit_simps [simp]:
  "digit 0 = CHR ''0''" "digit 3 = CHR ''3''" "digit 300 = CHR ''0''" "digit 30 = CHR ''0''"
  by (simp_all add: digit_def)

lemma toFixed2_3: "toFixed2 3 = ''3.00''"
  by (simp add: toFixed2_def nat_to_string.simps)

lemma rejection_message_3:
  "rejection_message (Some 3) = ''User too far from station (3.00km)''"
  by (simp add: rejection_message_def number_toFixed2_def toFixed2_3)

lemma score_submission_rejected:
  assumes "calculateDistance (a_error env) ulat ulon slat slon = Some d" "2 < d"
  shows "score_submission env trust ulat ulon slat slon =
     \<lparr> score = Some 0, trustScore = trust,
       timeDecay = calculateTimeDecay (t_now env) (t_submit env),
       locationFactor = Some 0, isRejected = True,
       rejectionReason = Some (rejection_message (Some d)) \<rparr>"
  using assms by (simp add: score_submission_def calculateLocationFactor_def Let_def)

lemma far_invalid:
  assumes "calculateDistance (a_error env) (to_number ulat) (to_number ulon)
             (Some slat) (Some slon) = Some d" "2 < d"
  shows "\<not> isValid (location_of env ulat ulon slat slon)"
  using assms by (simp add: location_of_def isValid_iff)

text \<open>
  A submission from more than 2 km away is stored as a rejected row with score \<open>0\<close> and
  the distance in its reason. If the consensus run that follows does not throw, the
  answer is a success (status 200) that carries the rejection and the reason.
\<close>

lemma rejected_submission_stored:
  assumes "station_coords (fuel_stations s sid) = Some (slat, slon)"
    and "serve env s req = process_submission env s sid ft uid ulat ulon"
    and "calculateDistance (a_error env) (to_number ulat) (to_number ulon)
           (Some slat) (Some slon) = Some d" "2 < d"
  shows "last (crowdsourced_reports (snd (serve env s req))) =
           submitted_row env s sid ft uid ulat ulon slat slon"
    and "is_rejected (submitted_row env s sid ft uid ulat ulon slat slon)"
    and "dve_score (submitted_row env s sid ft uid ulat ulon slat slon) = Some 0"
    and "rejection_reason (submitted_row env s sid ft uid ulat ulon slat slon) =
           Some (rejection_message (Some d))"
    and "\<not> is_verified (submitted_row env s sid ft uid ulat ulon slat slon)"
  using far_invalid [OF assms(3,4)]
  by (simp_all add: serve_rejected_store [OF assms(1,2) far_invalid [OF assms(3,4)]]
        submitted_row_scores)
     (simp add: submitted_row_def new_report_def score_submission_rejected [OF assms(3,4)])

lemma rejected_submission_response:
  assumes "station_coords (fuel_stations s sid) = Some (slat, slon)"
    and "serve env s req = process_submission env s sid ft uid ulat ulon"
    and "calculateDistance (a_error env) (to_number ulat) (to_number ulon)
           (Some slat) (Some slon) = Some d" "2 < d"
  shows "fst (serve env s req) =
    (case run_consensus env sid s of
       Inl e \<Rightarrow> \<lparr> status = 500, body = Exception e \<rparr>
     | Inr s' \<Rightarrow>
         \<lparr> status = 200,
           body = Submitted (length (crowdsourced_reports s))
             \<lparr> score = Some 0, trustScore = fst (get_or_create_trust uid s),
               timeDecay = calculateTimeDecay (t_now env) (t_submit env),
               locationFactor = Some 0, isRejected = True,
               rejectionReason = Some (rejection_message (Some d)) \<rparr> \<rparr>)"
proof -
  have rej: "is_rejected (submitted_row env s sid ft uid ulat ulon slat slon)"
    using far_invalid [OF assms(3,4)] by simp
  show ?thesis
    unfolding assms(2) process_submission_found [OF assms(1)] with_submission_alt
      run_consensus_rejected [OF rej] score_submission_rejected [OF assms(3,4)]
    by (cases "run_consensus env sid s") simp_all
qed

text \<open>
  Scenario B of the specification: a first report for station \<open>s1\<close> sent from exactly 3 km
  south of it is stored as rejected, and the answer is a success that names the distance.
\<close>

lemma scenario_B:
  "fst (serve env0 st0 (Body ''submit_report''
          (Some (sub0\<lparr>req_user_lat := JNum (1 - 540 / (6371 * pi))\<rparr>)))) =
     \<lparr> status = 200,
       body = Submitted 0
         \<lparr> score = Some 0, trustScore = 0.5, timeDecay = 1, locationFactor = Some 0,
           isRejected = True,
           rejectionReason = Some ''User too far from station (3.00km)'' \<rparr> \<rparr>"
proof -
  let ?u = "1 - 540 / (6371 * pi)"
  have "540 / (6371 * pi) \<le> 540 / (6371 * 2)"
    using pi_ge_two by (intro divide_left_mono mult_left_mono) simp_all
  then have x: "0 \<le> 540 / (6371 * pi)" "540 / (6371 * pi) \<le> 180" by simp_all
  have "calculateDistance 0 (Some ?u) (Some 1) (Some (?u + 540 / (6371 * pi))) (Some 1) =
        Some (6371 * (540 / (6371 * pi) * (pi / 180)))"
    using x by (rule calculateDistance_meridian)
  then have d: "calculateDistance (a_error env0) (to_number (JNum ?u)) (to_number (JNum 1))
                  (Some 1) (Some 1) = Some 3"
    by (simp add: env0_def)
  have far: "(2::real) < 3" by simp
  have sv: "serve env0 st0 (Body ''submit_report''
              (Some (sub0\<lparr>req_user_lat := JNum ?u\<rparr>))) =
            process_submission env0 st0 ''s1'' ''Diesel'' ''u1'' (JNum ?u) (JNum 1)"
    by (simp add: serve_def submit_report_def missing_required_def falsy_string_def sub0_def)
  have rc: "run_consensus env0 ''s1'' st0 = Inr st0"
    by (simp add: run_consensus_def window_def st0_def)
  have t: "fst (get_or_create_trust ''u1'' st0) = 1 / 2"
    by (simp add: get_or_create_trust_def st0_def)
  have n: "length (crowdsourced_reports st0) = 0" by (simp add: st0_def)
  have c: "calculateTimeDecay (t_now env0) (t_submit env0) = 1"
    by (simp add: env0_def)
  from rejected_submission_response [OF st0_coords sv d far]
  show ?thesis
    unfolding rc rejection_message_3 t n c by simp
qed

text \<open>
  Claim C6, at an input where the code departs from it. The first user reports the
  fuel type \<open>constructor\<close> at station \<open>s1\<close>, the second user reports Diesel there; this
  gives the store \<open>stX2\<close>. The third user's submission from about 111 km away is stored
  as a rejected row, but the consensus run that follows throws in the grouping of the
  two earlier reports, and the answer is the server error 500.
\<close>

theorem rejected_submission_server_error:
  "snd (serve env0 (snd (serve env0 st0 (Body ''submit_report'' (Some sub_ctor))))
          (Body ''submit_report'' (Some sub_u2))) = stX2 \<and>
   is_rejected (last (crowdsourced_reports
      (snd (serve env1 stX2 (Body ''submit_report'' (Some sub_far)))))) \<and>
   fst (serve env1 stX2 (Body ''submit_report'' (Some sub_far))) =
     \<lparr> status = 500, body = Exception TypeError \<rparr>"
proof -
  have c: "station_coords (fuel_stations stX2 ''s1'') = Some (1, 1)"
    by (simp add: st0_coords)
  have d: "calculateDistance (a_error env1) (to_number (JNum 0)) (to_number (JNum 1))
             (Some 1) (Some 1) = Some (6371 * pi / 180)"
    using dist_sub_far(1) by (simp add: env1_def)
  have "snd (serve env0 (snd (serve env0 st0 (Body ''submit_report'' (Some sub_ctor))))
          (Body ''submit_report'' (Some sub_u2))) = stX2"
    by (simp add: step_X1 step_X2)
  moreover have "is_rejected (last (crowdsourced_reports
      (snd (serve env1 stX2 (Body ''submit_report'' (Some sub_far))))))"
    using rejected_submission_stored(1,2) [OF c sub0_serve(3) d dist_sub_far(2)] by simp
  moreover have "fst (serve env1 stX2 (Body ''submit_report'' (Some sub_far))) =
     \<lparr> status = 500, body = Exception TypeError \<rparr>"
    by (simp add: rejected_submission_response [OF c sub0_serve(3) d dist_sub_far(2)]
          run_consensus_stX2)
  ultimately show ?thesis by blast
qed

section \<open>A group that the consensus run does not reach\<close>

lemma step_X3:
  "serve env0 stX2 (Body ''submit_report'' (Some sub_u3)) =
     (\<lparr> status = 500, body = Exception TypeError \<rparr>, stX3)"
proof -
  let ?r1 = "(rC ''u1'' 0.5)\<lparr>fuel_type := ''constructor''\<rparr>"
  have c: "station_coords (fuel_stations stX2 ''s1'') = Some (1, 1)"
    by (simp add: st0_coords)
  have ws: "with_submission env0 stX2 ''s1'' ''Diesel'' ''u3'' (JNum 1) (JNum 1) 1 1 = stX3"
    by (simp add: with_submission_def submitted_row_env0 get_or_create_trust_def
          stX2_def stX3_def rC_def)
  have w: "window env0 ''s1'' (crowdsourced_reports stX3) =
             [(0, ?r1), (1, rC ''u2'' 0.5), (2, rC ''u3'' 0.5)]"
    by (simp add: window_def upt_rec stX3_def)
  have rc: "run_consensus env0 ''s1'' stX3 = Inl TypeError"
    unfolding run_consensus_def w Let_def by simp
  show ?thesis
    unfolding sub0_serve process_submission_found [OF c] ws rc by simp
qed

lemma group_stX3:
  "group_of ''Diesel'' (window env0 ''s1'' (crowdsourced_reports stX3)) =
     [(1, rC ''u2'' 0.5), (2, rC ''u3'' 0.5)]"
  by (simp add: window_def upt_rec stX3_def group_of_def)

text \<open>
  Claim C2, at an input where the code departs from it. The first user reports the
  fuel type \<open>constructor\<close> at station \<open>s1\<close>, the second user reports Diesel there; this
  gives the store \<open>stX2\<close>. The third user reports Diesel there too, from the station. The
  station's windowed, non-rejected Diesel reports then come from two distinct
  submitters, and the mean of their scores plus the bonus, \<open>0.7\<close>, is above the threshold
  \<open>0.4\<close>. But the grouping loop throws at the first user's report before any group is
  published: the answer is the server error 500, there is no Verified Fuel Entry for
  Diesel at \<open>s1\<close>, and no report is marked verified.
\<close>

theorem consensus_group_not_published:
  "snd (serve env0 (snd (serve env0 st0 (Body ''submit_report'' (Some sub_ctor))))
          (Body ''submit_report'' (Some sub_u2))) = stX2 \<and>
   serve env0 stX2 (Body ''submit_report'' (Some sub_u3)) =
     (\<lparr> status = 500, body = Exception TypeError \<rparr>, stX3) \<and>
   uniqueUsers (group_of ''Diesel'' (window env0 ''s1'' (crowdsourced_reports stX3))) = 2 \<and>
   finalScore (group_of ''Diesel'' (window env0 ''s1'' (crowdsourced_reports stX3))) = 0.7 \<and>
   verified_fuel_data stX3 (''s1'', ''Diesel'') = None \<and>
   map is_verified (crowdsourced_reports stX3) = [False, False, False]"
proof -
  have "snd (serve env0 (snd (serve env0 st0 (Body ''submit_report'' (Some sub_ctor))))
          (Body ''submit_report'' (Some sub_u2))) = stX2"
    by (simp add: step_X1 step_X2)
  moreover have
    "uniqueUsers (group_of ''Diesel'' (window env0 ''s1'' (crowdsourced_reports stX3))) = 2"
    unfolding group_stX3 by (simp add: uniqueUsers_def)
  moreover have
    "finalScore (group_of ''Diesel'' (window env0 ''s1'' (crowdsourced_reports stX3))) = 0.7"
    unfolding group_stX3 by (simp add: finalScore_def avgScore_def or0_def)
  moreover have "verified_fuel_data stX3 (''s1'', ''Diesel'') = None"
    by (simp add: stX3_def st0_def)
  moreover have "map is_verified (crowdsourced_reports stX3) = [False, False, False]"
    by (simp add: stX3_def rC_def)
  ultimately show ?thesis using step_X3 by blast
qed

section \<open>A report sent from the antipode of its station\<close>

lemma location_of_antipode:
  "location_of env_fp (JNum (- 14.7)) (JNum (- 179)) 14.7 1 =
     \<lparr> factor = None, distance = None, isValid = True \<rparr>"
  unfolding location_of_def to_number_simps
  using calculateLocationFactor_NaN [OF calculateDistance_antipode_rounded]
  by (simp add: env_fp_def)

lemma score_antipode:
  "score_submission env_fp (1 / 2) (Some (- 14.7)) (Some (- 179)) (Some 14.7) (Some 1) =
     \<lparr> score = None, trustScore = 0.5, timeDecay = 1, locationFactor = None,
       isRejected = False, rejectionReason = None \<rparr>"
proof -
  have l: "calculateLocationFactor (a_error env_fp) (Some (- 14.7)) (Some (- 179))
             (Some 14.7) (Some 1) =
     \<lparr> factor = None, distance = None, isValid = True \<rparr>"
    using location_of_antipode by (simp add: location_of_def)
  show ?thesis
    unfolding score_submission_def l Let_def by (simp add: env_fp_def env0_def)
qed

lemma submitted_row_antipode:
  "submitted_row env_fp st0 ''s4'' ''Diesel'' ''u1'' (JNum (- 14.7)) (JNum (- 179)) 14.7 1 =
     row_antipode"
proof -
  have t: "fst (get_or_create_trust ''u1'' st0) = 1 / 2"
    by (simp add: get_or_create_trust_def st0_def)
  show ?thesis
    unfolding submitted_row_def t to_number_simps score_antipode
    by (simp add: new_report_def row_antipode_def env_fp_def env0_def)
qed

text \<open>
  Claim C1, at an input where the code departs from it. The first report of user \<open>u1\<close>
  is for station \<open>s4\<close> and is sent from the antipode of the station. The haversine term
  is rounded to \<open>1 + 2\<^sup>-\<^sup>5\<^sup>2\<close>, the distance and the location factor are \<^verbatim>\<open>NaN\<close>, and the
  validity flag is true. The answer is a success with the score \<^verbatim>\<open>NaN\<close>, and the row is
  stored as not rejected with no number as its \<^verbatim>\<open>dve_score\<close>: the score is not in the
  range from \<open>0\<close> to \<open>1\<close>, although the trust score \<open>0.5\<close> is in its range.
\<close>

theorem antipode_report_score:
  "serve env_fp st0 (Body ''submit_report'' (Some sub_antipode)) =
     (\<lparr> status = 200,
        body = Submitted 0 \<lparr> score = None, trustScore = 0.5, timeDecay = 1,
                 locationFactor = None, isRejected = False, rejectionReason = None \<rparr> \<rparr>,
      st0\<lparr>user_trust_scores := [''u1'' \<mapsto> 0.5], crowdsourced_reports := [row_antipode]\<rparr>) \<and>
   \<not> is_rejected row_antipode \<and> dve_score row_antipode = None \<and>
   trust_score_at_submission row_antipode = Some 0.5"
proof -
  let ?s2 = "st0\<lparr>user_trust_scores := [''u1'' \<mapsto> 0.5], crowdsourced_reports := [row_antipode]\<rparr>"
  have ws: "with_submission env_fp st0 ''s4'' ''Diesel'' ''u1'' (JNum (- 14.7)) (JNum (- 179))
              14.7 1 = ?s2"
    unfolding with_submission_def submitted_row_antipode
    by (simp add: get_or_create_trust_def st0_def)
  have w: "window env_fp ''s4'' (crowdsourced_reports ?s2) = [(0, row_antipode)]"
    by (simp add: window_def row_antipode_def cutoffDate_def env_fp_def env0_def)
  have g: "groupByFuelType [(0, row_antipode)] [] = Inr [(''Diesel'', [(0, row_antipode)])]"
    by (simp add: row_antipode_def)
  have u: "uniqueUsers [(0, row_antipode)] = 1"
    by (simp add: uniqueUsers_def)
  have rc: "run_consensus env_fp ''s4'' ?s2 = Inr ?s2"
    unfolding run_consensus_def w Let_def g sum.case consensus_loop.simps u
    by simp
  have t: "fst (get_or_create_trust ''u1'' st0) = 1 / 2"
    by (simp add: get_or_create_trust_def st0_def)
  have n: "length (crowdsourced_reports st0) = 0" by (simp add: st0_def)
  have "serve env_fp st0 (Body ''submit_report'' (Some sub_antipode)) =
     (\<lparr> status = 200,
        body = Submitted 0 \<lparr> score = None, trustScore = 0.5, timeDecay = 1,
                 locationFactor = None, isRejected = False, rejectionReason = None \<rparr> \<rparr>, ?s2)"
    unfolding sub0_serve process_submission_found [OF st0_coords_s4] ws rc t n to_number_simps
      score_antipode
    by simp
  then show ?thesis by (simp add: row_antipode_def)
qed

section \<open>Requests without a report, or with a coordinate that is null\<close>

lemma submitted_row_null:
  "submitted_row env0 st0 ''s1'' ''Diesel'' ''u1'' JNull (JNum 1) 1 1 = row_null"
proof -
  have t: "fst (get_or_create_trust ''u1'' st0) = 1 / 2"
    by (simp add: get_or_create_trust_def st0_def)
  have d: "calculateDistance (a_error env0) (Some 0) (Some 1) (Some 1) (Some 1) =
             Some (6371 * pi / 180)"
    using dist_sub_far(1) by (simp add: env0_def)
  show ?thesis
    unfolding submitted_row_def t to_number_simps
      score_submission_rejected [OF d dist_sub_far(2)]
    by (simp add: new_report_def row_null_def env0_def)
qed

text \<open>
  Claim C7, at inputs where the code departs from it. A \<^verbatim>\<open>submit_report\<close> request whose
  body has no \<^verbatim>\<open>report\<close> object lacks all five fields; the check of the fields throws,
  and the answer is the server error 500 instead of the client error 400. A request
  whose latitude is \<^verbatim>\<open>null\<close> passes the check, which compares with \<^verbatim>\<open>undefined\<close> only: the
  latitude counts as \<open>0\<close>, a trust-score row and a report row with an empty latitude are
  written, and the answer is a success.
\<close>

theorem incomplete_submission_not_turned_away:
  "serve env0 st0 (Body ''submit_report'' None) =
     (\<lparr> status = 500, body = Exception TypeError \<rparr>, st0) \<and>
   serve env0 st0 (Body ''submit_report'' (Some sub_null)) =
     (\<lparr> status = 200,
        body = Submitted 0
          \<lparr> score = Some 0, trustScore = 0.5, timeDecay = 1, locationFactor = Some 0,
            isRejected = True,
            rejectionReason = Some (rejection_message (Some (6371 * pi / 180))) \<rparr> \<rparr>,
      st0\<lparr>user_trust_scores := [''u1'' \<mapsto> 0.5], crowdsourced_reports := [row_null]\<rparr>) \<and>
   req_user_lat sub_null = JNull \<and> user_lat row_null = None"
proof -
  let ?s2 = "st0\<lparr>user_trust_scores := [''u1'' \<mapsto> 0.5], crowdsourced_reports := [row_null]\<rparr>"
  have a: "serve env0 st0 (Body ''submit_report'' None) =
     (\<lparr> status = 500, body = Exception TypeError \<rparr>, st0)"
    by (simp add: serve_def)
  have ws: "with_submission env0 st0 ''s1'' ''Diesel'' ''u1'' JNull (JNum 1) 1 1 = ?s2"
    unfolding with_submission_def submitted_row_null
    by (simp add: get_or_create_trust_def st0_def)
  have w: "window env0 ''s1'' (crowdsourced_reports ?s2) = []"
    by (simp add: window_def row_null_def)
  have rc: "run_consensus env0 ''s1'' ?s2 = Inr ?s2"
    unfolding run_consensus_def w Let_def by simp
  have t: "fst (get_or_create_trust ''u1'' st0) = 1 / 2"
    by (simp add: get_or_create_trust_def st0_def)
  have n: "length (crowdsourced_reports st0) = 0" by (simp add: st0_def)
  have d: "calculateDistance (a_error env0) (Some 0) (Some 1) (Some 1) (Some 1) =
             Some (6371 * pi / 180)"
    using dist_sub_far(1) by (simp add: env0_def)
  have c: "calculateTimeDecay (t_now env0) (t_submit env0) = 1"
    by (simp add: env0_def)
  have b: "serve env0 st0 (Body ''submit_report'' (Some sub_null)) =
     (\<lparr> status = 200,
        body = Submitted 0
          \<lparr> score = Some 0, trustScore = 0.5, timeDecay = 1, locationFactor = Some 0,
            isRejected = True,
            rejectionReason = Some (rejection_message (Some (6371 * pi / 180))) \<rparr> \<rparr>, ?s2)"
    unfolding sub0_serve process_submission_found [OF st0_coords] ws rc t n to_number_simps
      score_submission_rejected [OF d dist_sub_far(2)] c
    by simp
  have e: "req_user_lat sub_null = JNull" "user_lat row_null = None"
    by (simp_all add: sub_null_def row_null_def)
  from a b e show ?thesis by blast
qed

section \<open>The admin projection\<close>

lemma distinct_enumerate: "distinct (zip [0..<length rows] rows)"
  by (simp add: distinct_zipI1)

lemma recent_reports_subset:
  "set (recent_reports rows) \<subseteq> set (zip [0..<length rows] rows)"
  unfolding recent_reports_def
  using set_take_subset [of 100 "sort_key (\<lambda>r. - timestamp (snd r)) (zip [0..<length rows] rows)"]
  by simp

lemma recent_reports_distinct: "distinct (recent_reports rows)"
  by (simp add: recent_reports_def distinct_enumerate)

lemma recent_reports_length: "length (recent_reports rows) = min 100 (length rows)"
  by (simp add: recent_reports_def)

lemma recent_reports_all:
  "length rows \<le> 100 \<Longrightarrow> set (recent_reports rows) = set (zip [0..<length rows] rows)"
  by (simp add: recent_reports_def)

lemma recent_reports_most_recent:
  assumes "x \<in> set (recent_reports rows)"
    and "y \<in> set (zip [0..<length rows] rows) - set (recent_reports rows)"
  shows "timestamp (snd y) \<le> timestamp (snd x)"
proof -
  let ?f = "\<lambda>r :: nat \<times> report. - timestamp (snd r)"
  let ?ss = "sort_key ?f (zip [0..<length rows] rows)"
  have "sorted (map ?f ?ss)" by (rule sorted_sort_key)
  then have "sorted (map ?f (take 100 ?ss) @ map ?f (drop 100 ?ss))"
    by (simp flip: map_append)
  then have le: "\<forall>a \<in> set (take 100 ?ss). \<forall>b \<in> set (drop 100 ?ss). ?f a \<le> ?f b"
    by (simp add: sorted_append)
  have x: "x \<in> set (take 100 ?ss)" using assms(1) by (simp add: recent_reports_def)
  have "y \<in> set ?ss" using assms(2) by simp
  then have "y \<in> set (take 100 ?ss) \<union> set (drop 100 ?ss)"
    by (simp flip: set_append)
  then have "y \<in> set (drop 100 ?ss)" using assms(2) by (simp add: recent_reports_def)
  with le x show ?thesis by fastforce
qed

text \<open>
  Claim C9, as amended. \<^verbatim>\<open>get_admin_data\<close> answers with the 100 most recent reports (all
  reports when at most 100 are stored), every trust-score row, every Verified Fuel
  Entry and the configuration constants, and does not change the store.
\<close>

theorem admin_data_projection:
  "(let resp = fst (serve env s (Body ''get_admin_data'' rep));
        rs = admin_reports resp;
        stored = zip [0..<length (crowdsourced_reports s)] (crowdsourced_reports s)
    in snd (serve env s (Body ''get_admin_data'' rep)) = s \<and>
       status resp = 200 \<and>
       body resp = AdminData rs (user_trust_scores s) (verified_fuel_data s) DVE_CONFIG \<and>
       set rs \<subseteq> set stored \<and> distinct rs \<and>
       length rs = min 100 (length stored) \<and>
       (length stored \<le> 100 \<longrightarrow> set rs = set stored) \<and>
       (\<forall>x \<in> set rs. \<forall>y \<in> set stored - set rs. timestamp (snd y) \<le> timestamp (snd x)))"
proof -
  have sv: "serve env s (Body ''get_admin_data'' rep) = (get_admin_data s, s)"
    by (simp add: serve_def)
  have rs: "admin_reports (get_admin_data s) = recent_reports (crowdsourced_reports s)"
    by (simp add: admin_reports_def get_admin_data_def)
  show ?thesis
    unfolding Let_def sv fst_conv snd_conv rs
    using recent_reports_subset [of "crowdsourced_reports s"]
          recent_reports_most_recent [of _ "crowdsourced_reports s"]
    by (simp add: recent_reports_distinct recent_reports_length recent_reports_all
          get_admin_data_def)
qed

theorem admin_data_projection_witness:
  "snd (serve env0 stA2 (Body ''get_admin_data'' None)) = stA2 \<and>
   length (admin_reports (fst (serve env0 stA2 (Body ''get_admin_data'' None)))) = 2 \<and>
   set (admin_reports (fst (serve env0 stA2 (Body ''get_admin_data'' None)))) =
     {(0, (rC ''u1'' 0.5)\<lparr>is_verified := True\<rparr>), (1, (rC ''u2'' 0.5)\<lparr>is_verified := True\<rparr>)}"
proof -
  have r: "crowdsourced_reports stA2 =
      [(rC ''u1'' 0.5)\<lparr>is_verified := True\<rparr>, (rC ''u2'' 0.5)\<lparr>is_verified := True\<rparr>]"
    by (simp add: stA2_def)
  from admin_data_projection [of env0 stA2 None, unfolded Let_def r]
  show ?thesis by (simp add: upt_rec insert_commute)
qed

text \<open>
  Claim C9 as stated fails with 101 reports in the store: the answer holds 100 of
  them, and the oldest report, with identifier 0, is not among them.
\<close>

theorem admin_data_omits_report:
  "length (crowdsourced_reports st101) = 101 \<and>
   length (admin_reports (fst (serve env0 st101 (Body ''get_admin_data'' None)))) = 100 \<and>
   (0, crowdsourced_reports st101 ! 0) \<notin>
     set (admin_reports (fst (serve env0 st101 (Body ''get_admin_data'' None))))"
proof -
  let ?rows = "crowdsourced_reports st101"
  let ?stored = "zip [0..<length ?rows] ?rows"
  let ?rs = "recent_reports ?rows"
  have sv: "serve env0 st101 (Body ''get_admin_data'' None) = (get_admin_data st101, st101)"
    by (simp add: serve_def)
  have rs: "admin_reports (get_admin_data st101) = ?rs"
    by (simp add: admin_reports_def get_admin_data_def)
  have n: "length ?rows = 101" by (simp add: st101_def)
  have ts: "timestamp (?rows ! i) = 1002 + int i" if "i < 101" for i
    using that by (simp add: st101_def del: upt_Suc)
  have len: "length ?rs = 100" by (simp add: recent_reports_length n)
  have "card (set ?rs) = 100"
    using distinct_card [OF recent_reports_distinct, of ?rows] len by simp
  moreover have "card (set ?stored) = 101"
    using distinct_card [OF distinct_enumerate, of ?rows] n by simp
  ultimately have "set ?rs \<noteq> set ?stored" by auto
  then obtain y where y: "y \<in> set ?stored - set ?rs"
    using recent_reports_subset [of ?rows] by auto
  obtain i where i: "y = (i, ?rows ! i)" "i < 101"
    using y in_set_enumerate [of "fst y" "snd y" ?rows] n by (cases y) auto
  have "(0, ?rows ! 0) \<notin> set ?rs"
  proof
    assume x: "(0, ?rows ! 0) \<in> set ?rs"
    from recent_reports_most_recent [OF x y]
    have "timestamp (?rows ! i) \<le> timestamp (?rows ! 0)" by (simp add: i)
    then have "i = 0" using ts [of i] ts [of 0] i(2) by simp
    with x y i show False by simp
  qed
  then show ?thesis
    unfolding sv fst_conv rs using n len by simp
qed


end
